theory Spec2Isabelle
  imports Main "HOL-Library.AList" "HOL-Library.Multiset"
begin


section \<open>Values exchanged by the services\<close>

text \<open>
  Both services speak JSON. A parsed document is what Python's \<open>json.loads\<close> returns:
  \<open>None\<close>, a bool, an int, a str, a list or a dict with string keys. A dict keeps its
  keys in insertion order, so it is an association list. Numbers are integers here
  (every id and timestamp of the two services is one).
\<close>

datatype json =
    JNull
  | JBool bool
  | JNum int
  | JStr string
  | JArr "json list"
  | JObj "(string \<times> json) list"

text \<open>Python's truth value of a parsed document, as tested by \<open>if x\<close> and \<open>not x\<close>.\<close>

fun py_truthy :: "json \<Rightarrow> bool" where
  "py_truthy JNull = False"
| "py_truthy (JBool b) = b"
| "py_truthy (JNum n) = (n \<noteq> 0)"
| "py_truthy (JStr s) = (s \<noteq> [])"
| "py_truthy (JArr xs) = (xs \<noteq> [])"
| "py_truthy (JObj kvs) = (kvs \<noteq> [])"

text \<open>
  The exceptions the handlers can meet. \<open>HTTPClientError\<close> carries the status code, the
  upstream response when there is one, and its message; \<open>OSError\<close> stands for the
  transport faults that are no HTTP error (refused connection, failed name lookup);
  \<open>DatabaseError\<close> is raised by the sqlite3 module.
\<close>

record http_response =
  code :: int
  body :: string

datatype exn =
    HTTPClientError int "http_response option" string
  | JSONDecodeError
  | KeyError
  | TypeError
  | AttributeError
  | ValueError
  | OverflowError
  | AssertionError
  | DatabaseError
  | OSError string

text \<open>\<open>obj.get(key, default)\<close>: only a dict has the method.\<close>

fun py_get :: "json \<Rightarrow> string \<Rightarrow> json \<Rightarrow> exn + json" where
  "py_get (JObj kvs) k dflt = Inr (case map_of kvs k of Some v \<Rightarrow> v | None \<Rightarrow> dflt)"
| "py_get _ k dflt = Inl AttributeError"

text \<open>\<open>obj[key]\<close> with a string key: a missing key of a dict is a \<open>KeyError\<close>, any other
  value cannot be indexed by a string.\<close>

fun py_getitem :: "json \<Rightarrow> string \<Rightarrow> exn + json" where
  "py_getitem (JObj kvs) k = (case map_of kvs k of Some v \<Rightarrow> Inr v | None \<Rightarrow> Inl KeyError)"
| "py_getitem _ k = Inl TypeError"

text \<open>
  Set elements and dict keys are compared by \<open>==\<close> and must be hashable. Among parsed
  documents \<open>True == 1\<close> and \<open>False == 0\<close>; lists and dicts are unhashable.
  \<open>py_key\<close> maps a value to its equality class, or to \<open>None\<close> when hashing it raises
  \<open>TypeError\<close>.
\<close>

datatype hkey = HNone | HNum int | HStr string

fun py_key :: "json \<Rightarrow> hkey option" where
  "py_key JNull = Some HNone"
| "py_key (JBool b) = Some (HNum (if b then 1 else 0))"
| "py_key (JNum n) = Some (HNum n)"
| "py_key (JStr s) = Some (HStr s)"
| "py_key (JArr xs) = None"
| "py_key (JObj kvs) = None"

section \<open>The gateway (public_api.py)\<close>

subsection \<open>Environment\<close>

text \<open>
  A request names the backend (\<open>get_service_url\<close> maps it to a port on localhost), the
  path, and either the query parameters (GET) or the encoded form body (POST).
\<close>

datatype service = Listing | User

datatype request =
    GET service string "(string \<times> string) list"
  | POST service string string

text \<open>
  \<open>http_client.fetch\<close> either returns the response (a 2xx status) or raises.
\<close>

datatype fetch_result = Returned http_response | Raised exn

text \<open>
  What the handlers take from outside the repository: the backends behind
  \<open>http_client.fetch\<close>, and the library functions \<open>json.loads\<close> and \<open>urlencode\<close>
  (\<open>Inl\<close>: the exception they raise), \<open>str\<close> as applied by an f-string to a parsed
  value and to a bytes object, and the order in which Python iterates a set, given its
  elements in insertion order.
\<close>

record env =
  fetch :: "request \<Rightarrow> fetch_result"
  json_loads :: "string \<Rightarrow> exn + json"
  urlencode :: "json \<Rightarrow> exn + string"
  py_str :: "json \<Rightarrow> string"
  bytes_str :: "string \<Rightarrow> string"
  set_order :: "json list \<Rightarrow> json list"

text \<open>What a handler leaves behind: the response it wrote, or an exception that escaped it.\<close>

datatype reply = Reply int json | Unhandled exn

subsection \<open>BaseHandler\<close>

text \<open>The members of \<open>http.HTTPStatus\<close> with their phrases; \<open>HTTPStatus(n)\<close> raises
  \<open>ValueError\<close> for any other number.\<close>

definition HTTPStatus_table :: "(int \<times> string) list" where
  "HTTPStatus_table =
    [(100, ''Continue''), (101, ''Switching Protocols''), (102, ''Processing''),
     (103, ''Early Hints''),
     (200, ''OK''), (201, ''Created''), (202, ''Accepted''),
     (203, ''Non-Authoritative Information''), (204, ''No Content''),
     (205, ''Reset Content''), (206, ''Partial Content''), (207, ''Multi-Status''),
     (208, ''Already Reported''), (226, ''IM Used''),
     (300, ''Multiple Choices''), (301, ''Moved Permanently''), (302, ''Found''),
     (303, ''See Other''), (304, ''Not Modified''), (305, ''Use Proxy''),
     (307, ''Temporary Redirect''), (308, ''Permanent Redirect''),
     (400, ''Bad Request''), (401, ''Unauthorized''), (402, ''Payment Required''),
     (403, ''Forbidden''), (404, ''Not Found''), (405, ''Method Not Allowed''),
     (406, ''Not Acceptable''), (407, ''Proxy Authentication Required''),
     (408, ''Request Timeout''), (409, ''Conflict''), (410, ''Gone''),
     (411, ''Length Required''), (412, ''Precondition Failed''),
     (413, ''Request Entity Too Large''), (414, ''Request-URI Too Long''),
     (415, ''Unsupported Media Type''), (416, ''Requested Range Not Satisfiable''),
     (417, ''Expectation Failed''), (418, ''I'm a Teapot''),
     (421, ''Misdirected Request''), (422, ''Unprocessable Entity''), (423, ''Locked''),
     (424, ''Failed Dependency''), (425, ''Too Early''), (426, ''Upgrade Required''),
     (428, ''Precondition Required''), (429, ''Too Many Requests''),
     (431, ''Request Header Fields Too Large''),
     (451, ''Unavailable For Legal Reasons''),
     (500, ''Internal Server Error''), (501, ''Not Implemented''), (502, ''Bad Gateway''),
     (503, ''Service Unavailable''), (504, ''Gateway Timeout''),
     (505, ''HTTP Version Not Supported''), (506, ''Variant Also Negotiates''),
     (507, ''Insufficient Storage''), (508, ''Loop Detected''), (510, ''Not Extended''),
     (511, ''Network Authentication Required'')]"

definition HTTPStatus_phrase :: "int \<Rightarrow> string option" where
  "HTTPStatus_phrase n = map_of HTTPStatus_table n"

text \<open>
  \<open>write_json\<close> sets the status and calls \<open>self.finish(json.dumps(obj))\<close>. For a status
  that allows no body (204, 304 and the 1xx range) \<open>finish\<close> asserts that nothing was
  written, and the assertion fails on the serialised object.
\<close>

definition no_body_status :: "int \<Rightarrow> bool" where
  "no_body_status status_code =
     (status_code = 204 \<or> status_code = 304 \<or> (100 \<le> status_code \<and> status_code < 200))"

definition write_json :: "json \<Rightarrow> int \<Rightarrow> exn + reply" where
  "write_json obj status_code =
     (if no_body_status status_code then Inl AssertionError else Inr (Reply status_code obj))"

text \<open>
  \<open>reason = kwargs.get("reason", HTTPStatus(status_code).phrase)\<close>: Python evaluates the
  default before the call to \<open>get\<close>, so the status is looked up whether or not a
  reason was passed, and the \<open>ValueError\<close> of an unknown status is raised from here.
\<close>

definition write_error :: "int \<Rightarrow> string option \<Rightarrow> exn + reply" where
  "write_error status_code reason_kw =
     (case HTTPStatus_phrase status_code of
        None \<Rightarrow> Inl ValueError
      | Some phrase \<Rightarrow>
          write_json
            (JObj [(''result'', JBool False),
                   (''errors'', JArr [JStr (case reason_kw of Some r \<Rightarrow> r | None \<Rightarrow> phrase)])])
            status_code)"

text \<open>An exception raised inside an \<open>except\<close> clause is not caught by its siblings: it
  leaves the handler.\<close>

definition leave :: "exn + reply \<Rightarrow> reply" where
  "leave r = (case r of Inl e \<Rightarrow> Unhandled e | Inr rep \<Rightarrow> rep)"

text \<open>\<open>self.get_argument(name, default)\<close> over an argument that is absent or given.\<close>

definition get_argument :: "string option \<Rightarrow> string \<Rightarrow> string" where
  "get_argument arg dflt = (case arg of Some v \<Rightarrow> v | None \<Rightarrow> dflt)"

subsection \<open>PublicListingsHandler.get\<close>

text \<open>
  \<open>{l["user_id"] for l in listings}\<close>: the listings are visited in order, and a value
  equal to one already in the set is not added again (the first one stays).
\<close>

definition set_add :: "json list \<Rightarrow> json \<Rightarrow> json list" where
  "set_add s x = (if py_key x \<in> py_key ` set s then s else s @ [x])"

fun collect_user_ids :: "json list \<Rightarrow> json list \<Rightarrow> exn + json list" where
  "collect_user_ids s [] = Inr s"
| "collect_user_ids s (l # ls) =
     (case py_getitem l ''user_id'' of
        Inl e \<Rightarrow> Inl e
      | Inr uid \<Rightarrow>
          (case py_key uid of
             None \<Rightarrow> Inl TypeError
           | Some k \<Rightarrow> collect_user_ids (set_add s uid) ls))"

text \<open>Iterating the value under \<open>"listings"\<close>: only a list yields the listing records;
  a truthy value of any other type ends in a \<open>TypeError\<close> (not iterable, or its
  elements are strings that cannot be indexed by \<open>"user_id"\<close>).\<close>

definition user_ids_of :: "json \<Rightarrow> exn + json list" where
  "user_ids_of listings =
     (case listings of JArr ls \<Rightarrow> collect_user_ids [] ls | _ \<Rightarrow> Inl TypeError)"

definition user_request :: "env \<Rightarrow> json \<Rightarrow> request" where
  "user_request E uid = GET User (''/users/'' @ py_str E uid) []"

text \<open>
  The loop over the gathered results. A result that is an exception is logged and
  skipped; a response is parsed, and its \<open>user\<close>, when truthy, is stored under the
  \<open>id\<close> it carries.
\<close>

fun collect_users :: "env \<Rightarrow> fetch_result list \<Rightarrow> (hkey \<rightharpoonup> json) \<Rightarrow> exn + (hkey \<rightharpoonup> json)" where
  "collect_users E [] users_map = Inr users_map"
| "collect_users E (Raised e # rs) users_map = collect_users E rs users_map"
| "collect_users E (Returned res # rs) users_map =
     (case json_loads E (body res) of
        Inl e \<Rightarrow> Inl e
      | Inr parsed \<Rightarrow>
          (case py_get parsed ''user'' JNull of
             Inl e \<Rightarrow> Inl e
           | Inr user_data \<Rightarrow>
               if py_truthy user_data then
                 (case py_getitem user_data ''id'' of
                    Inl e \<Rightarrow> Inl e
                  | Inr i \<Rightarrow>
                      (case py_key i of
                         None \<Rightarrow> Inl TypeError
                       | Some k \<Rightarrow> collect_users E rs (users_map(k \<mapsto> user_data))))
               else collect_users E rs users_map))"

text \<open>\<open>users_map.get(key)\<close>.\<close>

definition users_map_get :: "(hkey \<rightharpoonup> json) \<Rightarrow> hkey \<Rightarrow> json" where
  "users_map_get users_map k = (case users_map k of Some u \<Rightarrow> u | None \<Rightarrow> JNull)"

text \<open>
  One pass of the last loop: \<open>listing["user"] = users_map.get(listing["user_id"])\<close>
  replaces the value of an existing key in place or appends the key, then
  \<open>del listing["user_id"]\<close> removes that key.
\<close>

definition with_user :: "(string \<times> json) list \<Rightarrow> json \<Rightarrow> (string \<times> json) list" where
  "with_user kvs u = AList.delete ''user_id'' (AList.update ''user'' u kvs)"

definition attach_user :: "(hkey \<rightharpoonup> json) \<Rightarrow> json \<Rightarrow> exn + json" where
  "attach_user users_map listing =
     (case py_getitem listing ''user_id'' of
        Inl e \<Rightarrow> Inl e
      | Inr uid \<Rightarrow>
          (case py_key uid of
             None \<Rightarrow> Inl TypeError
           | Some k \<Rightarrow>
               (case listing of
                  JObj kvs \<Rightarrow>
                    Inr (JObj (with_user kvs (users_map_get users_map k)))
                | _ \<Rightarrow> Inl TypeError)))"

fun attach_users :: "(hkey \<rightharpoonup> json) \<Rightarrow> json list \<Rightarrow> exn + json list" where
  "attach_users users_map [] = Inr []"
| "attach_users users_map (l # ls) =
     (case attach_user users_map l of
        Inl e \<Rightarrow> Inl e
      | Inr l' \<Rightarrow>
          (case attach_users users_map ls of
             Inl e \<Rightarrow> Inl e
           | Inr ls' \<Rightarrow> Inr (l' # ls')))"

definition listings_request :: "string option \<Rightarrow> string option \<Rightarrow> string option \<Rightarrow> request" where
  "listings_request page_num page_size user_id =
     GET Listing ''/listings''
       ([(''page_num'', get_argument page_num ''1''),
         (''page_size'', get_argument page_size ''10'')]
        @ (case user_id of
             Some u \<Rightarrow> if u \<noteq> [] then [(''user_id'', u)] else []
           | None \<Rightarrow> []))"

text \<open>
  The body of the \<open>try\<close> block, from the fan-out on. It returns the requests issued and
  either the exception raised or the response written.
\<close>

definition fan_out :: "env \<Rightarrow> json \<Rightarrow> request list \<times> (exn + reply)" where
  "fan_out E listings =
     (case user_ids_of listings of
        Inl e \<Rightarrow> ([], Inl e)
      | Inr ids \<Rightarrow>
          (let user_ids = set_order E ids;
               user_tasks = map (user_request E) user_ids;
               user_responses = map (fetch E) user_tasks
           in (user_tasks,
               (case collect_users E user_responses Map.empty of
                  Inl e \<Rightarrow> Inl e
                | Inr users_map \<Rightarrow>
                    (case listings of
                       JArr ls \<Rightarrow>
                         (case attach_users users_map ls of
                            Inl e \<Rightarrow> Inl e
                          | Inr enriched \<Rightarrow>
                              write_json
                                (JObj [(''result'', JBool True),
                                       (''listings'', JArr enriched)]) 200)
                     | _ \<Rightarrow> Inl TypeError)))))"

definition get_try :: "env \<Rightarrow> request \<Rightarrow> request list \<times> (exn + reply)" where
  "get_try E full_url =
     (case fetch E full_url of
        Raised e \<Rightarrow> ([full_url], Inl e)
      | Returned listing_response \<Rightarrow>
          (case json_loads E (body listing_response) of
             Inl e \<Rightarrow> ([full_url], Inl e)
           | Inr data \<Rightarrow>
               (case py_get data ''listings'' (JArr []) of
                  Inl e \<Rightarrow> ([full_url], Inl e)
                | Inr listings \<Rightarrow>
                    if \<not> py_truthy listings then
                      ([full_url],
                       write_json (JObj [(''result'', JBool True),
                                         (''listings'', JArr [])]) 200)
                    else (full_url # fst (fan_out E listings), snd (fan_out E listings)))))"

text \<open>The two \<open>except\<close> clauses of \<open>get\<close>, in their order.\<close>

fun get_except :: "env \<Rightarrow> exn \<Rightarrow> reply" where
  "get_except E (HTTPClientError c resp msg) =
     leave (write_error c
              (Some (''Upstream service error: ''
                     @ (case resp of Some r \<Rightarrow> bytes_str E (body r) | None \<Rightarrow> msg))))"
| "get_except E e = leave (write_error 500 (Some ''An internal server error occurred.''))"

definition PublicListingsHandler_get ::
  "env \<Rightarrow> string option \<Rightarrow> string option \<Rightarrow> string option \<Rightarrow> request list \<times> reply" where
  "PublicListingsHandler_get E page_num page_size user_id =
     (let r = get_try E (listings_request page_num page_size user_id)
      in (fst r, (case snd r of Inl e \<Rightarrow> get_except E e | Inr rep \<Rightarrow> rep)))"

subsection \<open>PublicListingsHandler.post and PublicUsersHandler.post\<close>

text \<open>The three \<open>except\<close> clauses the two \<open>post\<close> methods share, in their order; the
  methods differ in the prefix of the upstream message.\<close>

fun post_except :: "env \<Rightarrow> string \<Rightarrow> exn \<Rightarrow> reply" where
  "post_except E prefix JSONDecodeError = leave (write_error 400 (Some ''Invalid JSON format.''))"
| "post_except E prefix (HTTPClientError c resp msg) =
     leave (write_error c
              (Some (prefix @ (case resp of Some r \<Rightarrow> bytes_str E (body r) | None \<Rightarrow> msg))))"
| "post_except E prefix e = leave (write_error 500 (Some ''An internal server error occurred.''))"

text \<open>The forwarding both methods end with: one POST, and the backend's JSON relayed
  under the backend's status. Of the statuses that allow no body only 204 is a 2xx, and
  the HTTP client returns it with an empty body, which \<open>json.loads\<close> rejects.\<close>

definition forward_post :: "env \<Rightarrow> request \<Rightarrow> request list \<times> (exn + reply)" where
  "forward_post E url =
     ([url],
      (case fetch E url of
         Raised e \<Rightarrow> Inl e
       | Returned response \<Rightarrow>
           (case json_loads E (body response) of
              Inl e \<Rightarrow> Inl e
            | Inr obj \<Rightarrow> write_json obj (code response))))"

definition listings_post_try :: "env \<Rightarrow> string \<Rightarrow> request list \<times> (exn + reply)" where
  "listings_post_try E request_body =
     (case json_loads E request_body of
        Inl e \<Rightarrow> ([], Inl e)
      | Inr parsed \<Rightarrow>
          (case urlencode E parsed of
             Inl e \<Rightarrow> ([], Inl e)
           | Inr post_data \<Rightarrow> forward_post E (POST Listing ''/listings'' post_data)))"

definition PublicListingsHandler_post :: "env \<Rightarrow> string \<Rightarrow> request list \<times> reply" where
  "PublicListingsHandler_post E request_body =
     (let r = listings_post_try E request_body
      in (fst r,
          (case snd r of
             Inl e \<Rightarrow> post_except E ''Listing service error: '' e
           | Inr rep \<Rightarrow> rep)))"

definition users_post_try :: "env \<Rightarrow> string \<Rightarrow> request list \<times> (exn + reply)" where
  "users_post_try E request_body =
     (case json_loads E request_body of
        Inl e \<Rightarrow> ([], Inl e)
      | Inr parsed \<Rightarrow>
          (case py_get parsed ''name'' JNull of
             Inl e \<Rightarrow> ([], Inl e)
           | Inr name \<Rightarrow>
               if \<not> py_truthy name then
                 ([], write_error 400 (Some ''JSON body must contain a 'name' key.''))
               else
                 (case urlencode E (JObj [(''name'', name)]) of
                    Inl e \<Rightarrow> ([], Inl e)
                  | Inr post_data \<Rightarrow> forward_post E (POST User ''/users'' post_data))))"

definition PublicUsersHandler_post :: "env \<Rightarrow> string \<Rightarrow> request list \<times> reply" where
  "PublicUsersHandler_post E request_body =
     (let r = users_post_try E request_body
      in (fst r,
          (case snd r of
             Inl e \<Rightarrow> post_except E ''User service error: '' e
           | Inr rep \<Rightarrow> rep)))"

section \<open>The user backend (user_service.py)\<close>

text \<open>
  A row of the \<open>users\<close> table; the column \<open>id\<close> is the field \<open>row_id\<close>. The database
  is the table in rowid order and the largest id ever given out (the table is
  \<open>AUTOINCREMENT\<close>). \<open>init_db\<close> on a fresh database leaves the table empty.
\<close>

record user_row =
  row_id :: int
  name :: string
  created_at :: int
  updated_at :: int

record db =
  rows :: "user_row list"
  seq :: int

definition init_db :: db where
  "init_db = \<lparr>rows = [], seq = 0\<rparr>"

text \<open>SQLite integers have 64 bits: binding a Python int outside the range raises
  \<open>OverflowError\<close>.\<close>

definition int64 :: "int \<Rightarrow> bool" where
  "int64 n = (- (2 ^ 63) \<le> n \<and> n < 2 ^ 63)"

text \<open>\<open>{field: row[field] for field in fields}\<close>.\<close>

definition user_dict :: "user_row \<Rightarrow> json" where
  "user_dict row =
     JObj [(''id'', JNum (row_id row)), (''name'', JStr (name row)),
           (''created_at'', JNum (created_at row)), (''updated_at'', JNum (updated_at row))]"

text \<open>
  \<open>SELECT * FROM users ORDER BY created_at DESC LIMIT ? OFFSET ?\<close>. SQLite reads a negative
  limit as no limit and a negative offset as zero. Rows with equal \<open>created_at\<close> stay in
  rowid order here; SQL leaves their order open.
\<close>

definition newest_first :: "user_row list \<Rightarrow> user_row list" where
  "newest_first rs = sort_key (\<lambda>r. - created_at r) rs"

definition sql_limit :: "int \<Rightarrow> 'a list \<Rightarrow> 'a list" where
  "sql_limit n xs = (if n < 0 then xs else take (nat n) xs)"

definition select_page :: "db \<Rightarrow> int \<Rightarrow> int \<Rightarrow> exn + user_row list" where
  "select_page d limit offset =
     (if int64 limit \<and> int64 offset
      then Inr (sql_limit limit (drop (nat offset) (newest_first (rows d))))
      else Inl OverflowError)"

text \<open>
  \<open>UsersHandler.get\<close>. \<open>to_int\<close> is Python's \<open>int\<close> on a string (\<open>None\<close>: it raises
  \<open>ValueError\<close>); an absent argument has the integer default. The query runs outside
  any \<open>try\<close>.
\<close>

definition int_argument :: "(string \<Rightarrow> int option) \<Rightarrow> string option \<Rightarrow> int \<Rightarrow> int option" where
  "int_argument to_int arg dflt = (case arg of None \<Rightarrow> Some dflt | Some v \<Rightarrow> to_int v)"

definition UsersHandler_get ::
  "(string \<Rightarrow> int option) \<Rightarrow> db \<Rightarrow> string option \<Rightarrow> string option \<Rightarrow> reply" where
  "UsersHandler_get to_int d page_num_arg page_size_arg =
     (case int_argument to_int page_num_arg 1 of
        None \<Rightarrow> leave (write_error 400 (Some ''Invalid page_num or page_size.''))
      | Some page_num \<Rightarrow>
          (case int_argument to_int page_size_arg 10 of
             None \<Rightarrow> leave (write_error 400 (Some ''Invalid page_num or page_size.''))
           | Some page_size \<Rightarrow>
               (let limit = page_size;
                    offset = (page_num - 1) * page_size
                in case select_page d limit offset of
                     Inl e \<Rightarrow> Unhandled e
                   | Inr results \<Rightarrow>
                       leave (write_json (JObj [(''result'', JBool True),
                                                (''users'', JArr (map user_dict results))]) 200))))"

text \<open>
  \<open>INSERT INTO users (name, created_at, updated_at) VALUES (?, ?, ?)\<close>: the new row gets
  the id after the largest one ever used; the insert fails when the value does not fit
  or the ids are used up. It returns the database and \<open>cursor.lastrowid\<close>.
\<close>

definition insert_user :: "db \<Rightarrow> string \<Rightarrow> int \<Rightarrow> int \<Rightarrow> exn + (db \<times> int option)" where
  "insert_user d nm c u =
     (if \<not> (int64 c \<and> int64 u) then Inl OverflowError
      else if \<not> int64 (seq d + 1) then Inl DatabaseError
      else Inr (\<lparr>rows = rows d @ [\<lparr>row_id = seq d + 1, name = nm, created_at = c, updated_at = u\<rparr>],
                 seq = seq d + 1\<rparr>,
                Some (seq d + 1)))"

text \<open>\<open>UsersHandler.post\<close>; \<open>time_now\<close> is the reading \<open>int(time.time() * 1e6)\<close>.\<close>

definition UsersHandler_post :: "int \<Rightarrow> db \<Rightarrow> string option \<Rightarrow> db \<times> reply" where
  "UsersHandler_post time_now d name_arg =
     (case name_arg of
        None \<Rightarrow> (d, leave (write_error 400 (Some ''name parameter is required.'')))
      | Some nm \<Rightarrow>
          if nm = [] then (d, leave (write_error 400 (Some ''name parameter is required.'')))
          else
            (case insert_user d nm time_now time_now of
               Inl e \<Rightarrow> (d, leave (write_error 500 (Some ''Internal server error.'')))
             | Inr (d', lastrowid) \<Rightarrow>
                 (case lastrowid of
                    None \<Rightarrow> (d', leave (write_error 500 (Some ''Failed to create user.'')))
                  | Some i \<Rightarrow>
                      (d', (case write_json
                                   (JObj [(''result'', JBool True),
                                          (''user'',
                                           JObj [(''id'', JNum i), (''name'', JStr nm),
                                                 (''created_at'', JNum time_now),
                                                 (''updated_at'', JNum time_now)])])
                                   201 of
                              Inl e \<Rightarrow> leave (write_error 500 (Some ''Internal server error.''))
                            | Inr rep \<Rightarrow> rep)))))"

text \<open>\<open>UserHandler.get\<close>: \<open>SELECT * FROM users WHERE id=?\<close> and \<open>fetchone\<close>; \<open>str_int\<close> is
  \<open>str\<close> on an int, for the message.\<close>

definition UserHandler_get ::
  "(string \<Rightarrow> int option) \<Rightarrow> (int \<Rightarrow> string) \<Rightarrow> db \<Rightarrow> string \<Rightarrow> reply" where
  "UserHandler_get to_int str_int d user_id_arg =
     (case to_int user_id_arg of
        None \<Rightarrow> leave (write_error 400 (Some ''Invalid user ID format.''))
      | Some user_id \<Rightarrow>
          if \<not> int64 user_id then Unhandled OverflowError
          else
            (case find (\<lambda>r. row_id r = user_id) (rows d) of
               Some row \<Rightarrow>
                 leave (write_json
                          (JObj [(''result'', JBool True), (''user'', user_dict row)]) 200)
             | None \<Rightarrow>
                 leave (write_error 404
                          (Some (''User with id '' @ str_int user_id @ '' not found.'')))))"

text \<open>The requests of the user backend, and a run of the service over a list of them.\<close>

datatype user_call =
    ListUsers "string option" "string option"
  | CreateUser "string option" int
  | GetUser string

definition serve ::
  "(string \<Rightarrow> int option) \<Rightarrow> (int \<Rightarrow> string) \<Rightarrow> db \<Rightarrow> user_call \<Rightarrow> db \<times> reply" where
  "serve to_int str_int d c =
     (case c of
        ListUsers page_num page_size \<Rightarrow> (d, UsersHandler_get to_int d page_num page_size)
      | CreateUser name_arg time_now \<Rightarrow> UsersHandler_post time_now d name_arg
      | GetUser user_id \<Rightarrow> (d, UserHandler_get to_int str_int d user_id))"

fun serve_all ::
  "(string \<Rightarrow> int option) \<Rightarrow> (int \<Rightarrow> string) \<Rightarrow> db \<Rightarrow> user_call list \<Rightarrow> db" where
  "serve_all to_int str_int d [] = d"
| "serve_all to_int str_int d (c # cs) =
     serve_all to_int str_int (fst (serve to_int str_int d c)) cs"

section \<open>Notions used to state the properties\<close>

text \<open>
  A listing record as the listing backend promises it: a dict with a \<open>user_id\<close> that can
  be a set element. \<open>owner_of\<close> reads that field.
\<close>

fun well_formed_listing :: "json \<Rightarrow> bool" where
  "well_formed_listing (JObj kvs) =
     (case map_of kvs ''user_id'' of Some uid \<Rightarrow> py_key uid \<noteq> None | None \<Rightarrow> False)"
| "well_formed_listing _ = False"

definition owner_of :: "json \<Rightarrow> json" where
  "owner_of l = (case py_getitem l ''user_id'' of Inr uid \<Rightarrow> uid | Inl e \<Rightarrow> JNull)"

text \<open>The set built from a list of values, in insertion order.\<close>

definition py_set :: "json list \<Rightarrow> json list" where
  "py_set xs = foldl set_add [] xs"

text \<open>The ids the handler looks up for a page, in the order it iterates its set; the
  iteration is sound when it yields every element of the set exactly once.\<close>

definition looked_up :: "env \<Rightarrow> json list \<Rightarrow> json list" where
  "looked_up E page = set_order E (py_set (map owner_of page))"

definition iterates_each_once :: "env \<Rightarrow> json list \<Rightarrow> bool" where
  "iterates_each_once E page =
     (mset (set_order E (py_set (map owner_of page))) = mset (py_set (map owner_of page)))"

text \<open>The user a resolution map gives a listing, and the listing after the last loop.\<close>

definition user_for :: "(hkey \<rightharpoonup> json) \<Rightarrow> json \<Rightarrow> json" where
  "user_for users_map l =
     (case py_key (owner_of l) of Some k \<Rightarrow> users_map_get users_map k | None \<Rightarrow> JNull)"

fun enriched :: "(hkey \<rightharpoonup> json) \<Rightarrow> json \<Rightarrow> json" where
  "enriched users_map (JObj kvs) = JObj (with_user kvs (user_for users_map (JObj kvs)))"
| "enriched users_map l = l"

text \<open>The fields of a listing other than \<open>user\<close> and \<open>user_id\<close>.\<close>

definition other_field :: "string \<times> json \<Rightarrow> bool" where
  "other_field kv = (fst kv \<noteq> ''user'' \<and> fst kv \<noteq> ''user_id'')"

text \<open>The error envelope of \<open>write_error\<close>, the status of a response, and the response
  of the last \<open>except\<close> clause of the gateway's handlers.\<close>

definition error_envelope :: "string \<Rightarrow> json" where
  "error_envelope message = JObj [(''result'', JBool False), (''errors'', JArr [JStr message])]"

definition reply_status :: "reply \<Rightarrow> int option" where
  "reply_status r = (case r of Reply status obj \<Rightarrow> Some status | Unhandled e \<Rightarrow> None)"

definition internal_error :: reply where
  "internal_error = Reply 500 (error_envelope ''An internal server error occurred.'')"

text \<open>
  The result of the lookup of one id. \<open>carried_user\<close> is what a result adds to the
  resolution map: nothing for an exception or a body without a truthy \<open>user\<close>, else
  the user under the \<open>id\<close> the body carries. \<open>passes_loop\<close> holds of a result on which
  the loop over the results raises nothing. \<open>resolution\<close> is the map the loop builds
  from the lookups of a list of ids: later entries replace earlier ones.
\<close>

definition lookup :: "env \<Rightarrow> json \<Rightarrow> fetch_result" where
  "lookup E uid = fetch E (user_request E uid)"

fun carried_user :: "env \<Rightarrow> fetch_result \<Rightarrow> (hkey \<times> json) option" where
  "carried_user E (Raised e) = None"
| "carried_user E (Returned res) =
     (case json_loads E (body res) of
        Inl e \<Rightarrow> None
      | Inr parsed \<Rightarrow>
          (case py_get parsed ''user'' JNull of
             Inl e \<Rightarrow> None
           | Inr user_data \<Rightarrow>
               if py_truthy user_data then
                 (case py_getitem user_data ''id'' of
                    Inl e \<Rightarrow> None
                  | Inr i \<Rightarrow> (case py_key i of None \<Rightarrow> None | Some k \<Rightarrow> Some (k, user_data)))
               else None))"

fun passes_loop :: "env \<Rightarrow> fetch_result \<Rightarrow> bool" where
  "passes_loop E (Raised e) = True"
| "passes_loop E (Returned res) =
     (case json_loads E (body res) of
        Inl e \<Rightarrow> False
      | Inr parsed \<Rightarrow>
          (case py_get parsed ''user'' JNull of
             Inl e \<Rightarrow> False
           | Inr user_data \<Rightarrow>
               if py_truthy user_data then
                 (case py_getitem user_data ''id'' of
                    Inl e \<Rightarrow> False
                  | Inr i \<Rightarrow> py_key i \<noteq> None)
               else True))"

fun resolve :: "env \<Rightarrow> json list \<Rightarrow> (hkey \<rightharpoonup> json) \<Rightarrow> (hkey \<rightharpoonup> json)" where
  "resolve E [] m = m"
| "resolve E (uid # uids) m =
     resolve E uids (case carried_user E (lookup E uid) of None \<Rightarrow> m | Some (k, u) \<Rightarrow> m(k \<mapsto> u))"

definition resolution :: "env \<Rightarrow> json list \<Rightarrow> (hkey \<rightharpoonup> json)" where
  "resolution E uids = resolve E uids Map.empty"

text \<open>
  A lookup failed when \<open>fetch\<close> raised (a non-2xx status or a transport fault). The user
  backend honours its contract for an id when a response it returns carries a user
  record whose \<open>id\<close> is the id asked for. A response lacks a user when it is a JSON
  object without a truthy \<open>user\<close>.
\<close>

definition lookup_failed :: "env \<Rightarrow> json \<Rightarrow> bool" where
  "lookup_failed E uid = (case lookup E uid of Raised e \<Rightarrow> True | Returned res \<Rightarrow> False)"

definition honours_contract :: "env \<Rightarrow> json \<Rightarrow> bool" where
  "honours_contract E uid =
     (case lookup E uid of
        Raised e \<Rightarrow> True
      | Returned res \<Rightarrow>
          (case json_loads E (body res) of
             Inr (JObj kvs) \<Rightarrow>
               (case map_of kvs ''user'' of
                  Some (JObj u) \<Rightarrow>
                    u \<noteq> [] \<and>
                    (case map_of u ''id'' of Some i \<Rightarrow> py_key i = py_key uid | None \<Rightarrow> False)
                | _ \<Rightarrow> False)
           | _ \<Rightarrow> False))"

definition lacks_user :: "env \<Rightarrow> json \<Rightarrow> bool" where
  "lacks_user E uid =
     (case lookup E uid of
        Raised e \<Rightarrow> False
      | Returned res \<Rightarrow>
          (case json_loads E (body res) of
             Inr (JObj kvs) \<Rightarrow>
               \<not> py_truthy (case map_of kvs ''user'' of Some u \<Rightarrow> u | None \<Rightarrow> JNull)
           | _ \<Rightarrow> False))"

text \<open>The environment in which the lookup of one id raises, all else unchanged.\<close>

definition with_failed_lookup :: "env \<Rightarrow> json \<Rightarrow> exn \<Rightarrow> env" where
  "with_failed_lookup E uid e = E\<lparr>fetch := (fetch E)(user_request E uid := Raised e)\<rparr>"

text \<open>
  For the user backend: a list of rows runs from the newest to the oldest; the user
  records a response carries (under \<open>user\<close>, or in the array under \<open>users\<close>); a user
  record whose \<open>created_at\<close> and \<open>updated_at\<close> are the same number; a database all of
  whose rows have equal stamps.
\<close>

definition newest_to_oldest :: "user_row list \<Rightarrow> bool" where
  "newest_to_oldest rs = sorted_wrt (\<lambda>a b. created_at b \<le> created_at a) rs"

fun users_in :: "reply \<Rightarrow> json list" where
  "users_in (Reply status (JObj kvs)) =
     (case map_of kvs ''user'' of Some u \<Rightarrow> [u] | None \<Rightarrow> [])
     @ (case map_of kvs ''users'' of Some (JArr us) \<Rightarrow> us | _ \<Rightarrow> [])"
| "users_in r = []"

definition same_stamps :: "json \<Rightarrow> bool" where
  "same_stamps u =
     (case py_getitem u ''created_at'' of
        Inr (JNum c) \<Rightarrow> py_getitem u ''updated_at'' = Inr (JNum c)
      | _ \<Rightarrow> False)"

definition stamps_agree :: "db \<Rightarrow> bool" where
  "stamps_agree d = (\<forall>r\<in>set (rows d). created_at r = updated_at r)"

definition demo_listing :: "int \<Rightarrow> int \<Rightarrow> json" where
  "demo_listing i owner =
     JObj [(''id'', JNum i), (''user_id'', JNum owner), (''price'', JNum 100)]"

definition demo_page :: "json list" where
  "demo_page = [demo_listing 1 7, demo_listing 2 8, demo_listing 3 7]"

definition demo_user :: "int \<Rightarrow> json" where
  "demo_user i =
     JObj [(''id'', JNum i), (''name'', JStr ''Ann''), (''created_at'', JNum 5),
           (''updated_at'', JNum 5)]"

definition demo_loads :: "string \<Rightarrow> exn + json" where
  "demo_loads s =
     (if s = ''page'' then Inr (JObj [(''result'', JBool True), (''listings'', JArr demo_page)])
      else if s = ''empty'' then Inr (JObj [(''result'', JBool True), (''listings'', JArr [])])
      else if s = ''user7'' then Inr (JObj [(''result'', JBool True), (''user'', demo_user 7)])
      else if s = ''user8'' then Inr (JObj [(''result'', JBool True), (''user'', demo_user 8)])
      else if s = ''nouser'' then Inr (JObj [(''result'', JBool True)])
      else if s = ''noname'' then Inr (JObj [])
      else if s = ''ann'' then Inr (JObj [(''name'', JStr ''Ann'')])
      else if s = ''array'' then Inr (JArr [])
      else if s = ''null'' then Inr JNull
      else Inl JSONDecodeError)"

definition demo_str :: "json \<Rightarrow> string" where
  "demo_str j = (case j of JNum n \<Rightarrow> (if n = 7 then ''7'' else if n = 8 then ''8'' else ''0'')
                 | _ \<Rightarrow> ''None'')"

definition demo_env :: "fetch_result \<Rightarrow> fetch_result \<Rightarrow> fetch_result \<Rightarrow> env" where
  "demo_env listings_result user8_result post_result =
     \<lparr>fetch = (\<lambda>req. case req of
                  GET Listing p q \<Rightarrow> listings_result
                | GET User p q \<Rightarrow>
                    if p = ''/users/7'' then Returned \<lparr>code = 200, body = ''user7''\<rparr>
                    else user8_result
                | POST s p b \<Rightarrow> post_result),
      json_loads = demo_loads,
      urlencode = (\<lambda>j. case j of JObj kvs \<Rightarrow> Inr ''name=Ann'' | _ \<Rightarrow> Inl TypeError),
      py_str = demo_str,
      bytes_str = (\<lambda>s. ''b:'' @ s),
      set_order = rev\<rparr>"

definition not_found :: fetch_result where
  "not_found = Raised (HTTPClientError 404 (Some \<lparr>code = 404, body = ''missing''\<rparr>)
                         ''HTTP 404: Not Found'')"

definition refused :: fetch_result where
  "refused = Raised (OSError ''Connection refused'')"

definition page_env :: env where
  "page_env = demo_env (Returned \<lparr>code = 200, body = ''page''\<rparr>) not_found refused"

definition empty_env :: env where
  "empty_env = demo_env (Returned \<lparr>code = 200, body = ''empty''\<rparr>) not_found refused"

definition noname_env :: env where
  "noname_env = demo_env refused refused refused"

definition unknown_status_env :: env where
  "unknown_status_env =
     demo_env (Raised (HTTPClientError 520 (Some \<lparr>code = 520, body = ''down''\<rparr>) ''HTTP 520: Unknown''))
       not_found refused"

definition unavailable_env :: env where
  "unavailable_env =
     demo_env (Raised (HTTPClientError 503 (Some \<lparr>code = 503, body = ''down''\<rparr>)
                         ''HTTP 503: Service Unavailable''))
       not_found refused"

definition nouser_env :: env where
  "nouser_env =
     demo_env (Returned \<lparr>code = 200, body = ''page''\<rparr>) (Returned \<lparr>code = 200, body = ''nouser''\<rparr>)
       refused"

definition demo_db :: db where
  "demo_db =
     \<lparr>rows = [\<lparr>row_id = 1, name = ''Ann'', created_at = 5, updated_at = 5\<rparr>,
              \<lparr>row_id = 2, name = ''Bob'', created_at = 9, updated_at = 9\<rparr>],
      seq = 2\<rparr>"

definition demo_int :: "string \<Rightarrow> int option" where
  "demo_int s =
     (if s = ''1'' then Some 1
      else if s = ''2'' then Some 2
      else if s = ''-1'' then Some (- 1)
      else if s = ''9223372036854775808'' then Some 9223372036854775808
      else None)"

definition demo_str_int :: "int \<Rightarrow> string" where
  "demo_str_int n = (if n = 1 then ''1'' else if n = 2 then ''2'' else ''0'')"

section \<open>Lemmas about the gateway\<close>

lemma leave_Inr: "leave (Inr rep) = rep"
  by (simp add: leave_def)

lemma well_formed_listingE:
  assumes "well_formed_listing l"
  obtains kvs uid k where "l = JObj kvs" "map_of kvs ''user_id'' = Some uid" "py_key uid = Some k"
  using assms by (cases l) (auto split: option.splits)

lemma well_formed_getitem:
  "well_formed_listing l \<Longrightarrow> py_getitem l ''user_id'' = Inr (owner_of l)"
  by (erule well_formed_listingE) (simp add: owner_of_def)

lemma well_formed_key:
  "well_formed_listing l \<Longrightarrow> \<exists>k. py_key (owner_of l) = Some k"
  by (erule well_formed_listingE) (simp add: owner_of_def)

lemma collect_user_ids_well_formed:
  "list_all well_formed_listing ls \<Longrightarrow>
     collect_user_ids s ls = Inr (foldl set_add s (map owner_of ls))"
proof (induction ls arbitrary: s)
  case Nil
  then show ?case by simp
next
  case (Cons l ls)
  from Cons.prems have wf: "well_formed_listing l" and rest: "list_all well_formed_listing ls"
    by simp_all
  from well_formed_key [OF wf] obtain k where "py_key (owner_of l) = Some k" ..
  with well_formed_getitem [OF wf] Cons.IH [OF rest] show ?case by simp
qed

lemma set_add_subset: "set (set_add s x) \<subseteq> insert x (set s)"
  by (auto simp: set_add_def)

lemma set_add_keys: "py_key ` set (set_add s x) = insert (py_key x) (py_key ` set s)"
  by (auto simp: set_add_def)

lemma set_add_distinct: "distinct (map py_key s) \<Longrightarrow> distinct (map py_key (set_add s x))"
  by (auto simp: set_add_def)

lemma foldl_set_add_subset: "set (foldl set_add s xs) \<subseteq> set s \<union> set xs"
proof (induction xs arbitrary: s)
  case Nil
  then show ?case by simp
next
  case (Cons x xs)
  have "set (foldl set_add (set_add s x) xs) \<subseteq> set (set_add s x) \<union> set xs"
    by (rule Cons.IH)
  also have "\<dots> \<subseteq> set s \<union> set (x # xs)"
    using set_add_subset [of s x] by auto
  finally show ?case by simp
qed

lemma foldl_set_add_keys:
  "py_key ` set (foldl set_add s xs) = py_key ` set s \<union> py_key ` set xs"
  by (induction xs arbitrary: s) (auto simp: set_add_keys)

lemma foldl_set_add_distinct:
  "distinct (map py_key s) \<Longrightarrow> distinct (map py_key (foldl set_add s xs))"
  by (induction xs arbitrary: s) (auto simp: set_add_distinct)

lemma py_set_subset: "set (py_set xs) \<subseteq> set xs"
  using foldl_set_add_subset [of "[]" xs] by (simp add: py_set_def)

lemma py_set_keys: "py_key ` set (py_set xs) = py_key ` set xs"
  using foldl_set_add_keys [of "[]" xs] by (simp add: py_set_def)

lemma py_set_distinct: "distinct (map py_key (py_set xs))"
  using foldl_set_add_distinct [of "[]" xs] by (simp add: py_set_def)

lemma user_ids_of_page:
  "list_all well_formed_listing page \<Longrightarrow>
     user_ids_of (JArr page) = Inr (py_set (map owner_of page))"
  by (simp add: user_ids_of_def py_set_def collect_user_ids_well_formed)

lemma attach_user_well_formed:
  "well_formed_listing l \<Longrightarrow> attach_user M l = Inr (enriched M l)"
  by (erule well_formed_listingE) (simp add: attach_user_def user_for_def owner_of_def)

lemma attach_users_well_formed:
  "list_all well_formed_listing ls \<Longrightarrow> attach_users M ls = Inr (map (enriched M) ls)"
  by (induction ls) (simp_all add: attach_user_well_formed)

lemma attach_user_shape:
  assumes "attach_user M l = Inr l'"
  shows "\<exists>kvs u. l = JObj kvs \<and> l' = JObj (with_user kvs u)"
  using assms by (cases l) (auto simp: attach_user_def split: option.splits sum.splits)

lemma attach_users_shape:
  "attach_users M ls = Inr out \<Longrightarrow>
     length out = length ls \<and>
     (\<forall>i<length ls. \<exists>kvs u. ls ! i = JObj kvs \<and> out ! i = JObj (with_user kvs u))"
proof (induction ls arbitrary: out)
  case Nil
  then show ?case by simp
next
  case (Cons l ls)
  from Cons.prems obtain l' ls' where l': "attach_user M l = Inr l'"
    and ls': "attach_users M ls = Inr ls'" and out: "out = l' # ls'"
    by (auto split: sum.splits)
  from Cons.IH [OF ls'] have len: "length ls' = length ls"
    and rest: "\<forall>i<length ls. \<exists>kvs u. ls ! i = JObj kvs \<and> ls' ! i = JObj (with_user kvs u)"
    by simp_all
  from attach_user_shape [OF l'] obtain kvs u where hd: "l = JObj kvs" "l' = JObj (with_user kvs u)"
    by blast
  show ?case
  proof (intro conjI allI impI)
    show "length out = length (l # ls)" using out len by simp
  next
    fix i assume "i < length (l # ls)"
    then show "\<exists>kvs u. (l # ls) ! i = JObj kvs \<and> out ! i = JObj (with_user kvs u)"
      using hd rest out by (cases i) auto
  qed
qed

lemma filter_update_other:
  "\<not> P (k, v) \<Longrightarrow> (\<And>w. \<not> P (k, w)) \<Longrightarrow> filter P (AList.update k v kvs) = filter P kvs"
  by (induction kvs) auto

lemma with_user_other_fields:
  "filter other_field (with_user kvs u) = filter other_field kvs"
proof -
  have "filter other_field (AList.delete ''user_id'' al) = filter other_field al" for al
    by (induction al) (auto simp: other_field_def)
  moreover have "filter other_field (AList.update ''user'' u kvs) = filter other_field kvs"
    by (rule filter_update_other) (simp_all add: other_field_def)
  ultimately show ?thesis by (simp add: with_user_def)
qed

lemma with_user_no_user_id: "''user_id'' \<notin> fst ` set (with_user kvs u)"
  by (simp add: with_user_def delete_notin_dom)

lemma with_user_map_of: "map_of (with_user kvs u) ''user'' = Some u"
  by (simp add: with_user_def delete_conv' update_conv')

lemma get_try_fetched:
  assumes "fetch E req = Returned res"
      and "json_loads E (body res) = Inr data"
      and "py_get data ''listings'' (JArr []) = Inr (JArr page)"
      and "page \<noteq> []"
  shows "get_try E req = (req # fst (fan_out E (JArr page)), snd (fan_out E (JArr page)))"
  using assms by (simp add: get_try_def)

lemma fan_out_well_formed:
  assumes "list_all well_formed_listing page"
  shows "fan_out E (JArr page) =
           (map (user_request E) (set_order E (py_set (map owner_of page))),
            (case collect_users E
                    (map (fetch E) (map (user_request E) (set_order E (py_set (map owner_of page)))))
                    Map.empty of
               Inl e \<Rightarrow> Inl e
             | Inr users_map \<Rightarrow>
                 Inr (Reply 200 (JObj [(''result'', JBool True),
                                       (''listings'', JArr (map (enriched users_map) page))]))))"
  using assms
  by (simp add: fan_out_def user_ids_of_page attach_users_well_formed write_json_def
        no_body_status_def Let_def
           split: sum.splits)

lemma write_error_not_success:
  "leave (write_error c r) \<noteq> Reply s (JObj ((''result'', JBool True) # rest))"
  by (simp add: leave_def write_error_def write_json_def no_body_status_def split: option.splits)

lemma get_except_not_success:
  "get_except E e \<noteq> Reply s (JObj ((''result'', JBool True) # rest))"
  by (cases e) (simp_all add: write_error_not_success)

lemma get_fetched_page:
  assumes "fetch E (listings_request page_num page_size user_id) = Returned res"
      and "json_loads E (body res) = Inr data"
      and "py_get data ''listings'' (JArr []) = Inr (JArr page)"
      and "page \<noteq> []"
      and "list_all well_formed_listing page"
  shows "PublicListingsHandler_get E page_num page_size user_id =
           (listings_request page_num page_size user_id # map (user_request E) (looked_up E page),
            (case collect_users E (map (fetch E) (map (user_request E) (looked_up E page))) Map.empty of
               Inl e \<Rightarrow> get_except E e
             | Inr users_map \<Rightarrow>
                 Reply 200 (JObj [(''result'', JBool True),
                                  (''listings'', JArr (map (enriched users_map) page))])))"
  using assms
  by (simp add: PublicListingsHandler_get_def get_try_fetched fan_out_well_formed looked_up_def
           split: sum.splits)

lemma get_fetched_empty:
  assumes "fetch E (listings_request page_num page_size user_id) = Returned res"
      and "json_loads E (body res) = Inr data"
      and "py_get data ''listings'' (JArr []) = Inr listings"
      and "\<not> py_truthy listings"
  shows "PublicListingsHandler_get E page_num page_size user_id =
           ([listings_request page_num page_size user_id],
            Reply 200 (JObj [(''result'', JBool True), (''listings'', JArr [])]))"
  using assms by (simp add: PublicListingsHandler_get_def get_try_def write_json_def
        no_body_status_def)

lemma looked_up_facts:
  assumes "iterates_each_once E page"
  shows "set (looked_up E page) = set (py_set (map owner_of page))"
    and "distinct (map py_key (looked_up E page))"
proof -
  from assms have m: "mset (looked_up E page) = mset (py_set (map owner_of page))"
    by (simp add: iterates_each_once_def looked_up_def)
  then show "set (looked_up E page) = set (py_set (map owner_of page))"
    by (rule mset_eq_setD)
  from m have "mset (map py_key (looked_up E page)) = mset (map py_key (py_set (map owner_of page)))"
    by simp
  then show "distinct (map py_key (looked_up E page))"
    using py_set_distinct [of "map owner_of page"] by (metis mset_eq_imp_distinct_iff)
qed

lemma HTTPStatus_400: "HTTPStatus_phrase 400 = Some ''Bad Request''"
  by (simp add: HTTPStatus_phrase_def HTTPStatus_table_def)

lemma HTTPStatus_404: "HTTPStatus_phrase 404 = Some ''Not Found''"
  by (simp add: HTTPStatus_phrase_def HTTPStatus_table_def)

lemma HTTPStatus_500: "HTTPStatus_phrase 500 = Some ''Internal Server Error''"
  by (simp add: HTTPStatus_phrase_def HTTPStatus_table_def)

lemma HTTPStatus_503: "HTTPStatus_phrase 503 = Some ''Service Unavailable''"
  by (simp add: HTTPStatus_phrase_def HTTPStatus_table_def)

lemma HTTPStatus_520: "HTTPStatus_phrase 520 = None"
  by (simp add: HTTPStatus_phrase_def HTTPStatus_table_def)

lemma HTTPStatus_599: "HTTPStatus_phrase 599 = None"
  by (simp add: HTTPStatus_phrase_def HTTPStatus_table_def)

lemma write_error_member:
  "HTTPStatus_phrase c = Some p \<Longrightarrow> \<not> no_body_status c \<Longrightarrow>
     write_error c (Some r) = Inr (Reply c (error_envelope r))"
  by (simp add: write_error_def write_json_def error_envelope_def)

lemma write_error_no_member:
  "HTTPStatus_phrase c = None \<Longrightarrow> write_error c r = Inl ValueError"
  by (simp add: write_error_def)

lemma write_error_400: "write_error 400 (Some r) = Inr (Reply 400 (error_envelope r))"
  by (rule write_error_member [OF HTTPStatus_400]) (simp add: no_body_status_def)

lemma write_error_404: "write_error 404 (Some r) = Inr (Reply 404 (error_envelope r))"
  by (rule write_error_member [OF HTTPStatus_404]) (simp add: no_body_status_def)

lemma write_error_500: "write_error 500 (Some r) = Inr (Reply 500 (error_envelope r))"
  by (rule write_error_member [OF HTTPStatus_500]) (simp add: no_body_status_def)

lemma get_listings_fetch_raised:
  "fetch E (listings_request a b c) = Raised e \<Longrightarrow>
     PublicListingsHandler_get E a b c = ([listings_request a b c], get_except E e)"
  by (simp add: PublicListingsHandler_get_def get_try_def)

lemma get_listings_upstream_status:
  assumes "fetch E (listings_request a b c) = Raised (HTTPClientError S (Some r) msg)"
      and "HTTPStatus_phrase S = Some p"
      and "\<not> no_body_status S"
  shows "PublicListingsHandler_get E a b c =
           ([listings_request a b c],
            Reply S (error_envelope (''Upstream service error: '' @ bytes_str E (body r))))"
  using assms by (simp add: get_listings_fetch_raised write_error_member leave_def)

lemma collect_users_step:
  "passes_loop E r \<Longrightarrow>
     collect_users E (r # rs) m =
       collect_users E rs (case carried_user E r of None \<Rightarrow> m | Some (k, u) \<Rightarrow> m(k \<mapsto> u))"
  by (cases r) (auto split: sum.splits option.splits)

lemma collect_users_resolve:
  "\<forall>x\<in>set uids. passes_loop E (lookup E x) \<Longrightarrow>
     collect_users E (map (fetch E) (map (user_request E) uids)) m = Inr (resolve E uids m)"
proof (induction uids arbitrary: m)
  case Nil
  then show ?case by simp
next
  case (Cons x xs)
  then have x: "passes_loop E (fetch E (user_request E x))"
    and xs: "\<forall>y\<in>set xs. passes_loop E (lookup E y)"
    by (simp_all add: lookup_def)
  from collect_users_step [OF x] Cons.IH [OF xs] show ?case
    by (simp add: lookup_def)
qed

lemma collect_users_resolution:
  assumes "\<forall>x\<in>set uids. passes_loop E (lookup E x)"
  shows "collect_users E (map (fetch E) (map (user_request E) uids)) Map.empty =
           Inr (resolution E uids)"
  using collect_users_resolve [OF assms] by (simp add: resolution_def)

lemma get_page_resolution:
  assumes "fetch E (listings_request page_num page_size user_id) = Returned res"
      and "json_loads E (body res) = Inr data"
      and "py_get data ''listings'' (JArr []) = Inr (JArr page)"
      and "list_all well_formed_listing page"
      and "\<forall>x\<in>set (looked_up E page). passes_loop E (lookup E x)"
  shows "snd (PublicListingsHandler_get E page_num page_size user_id) =
           Reply 200 (JObj [(''result'', JBool True),
                            (''listings'', JArr (map (enriched (resolution E (looked_up E page))) page))])"
proof (cases "page = []")
  case True
  with assms(3) have "py_get data ''listings'' (JArr []) = Inr (JArr [])" by simp
  from get_fetched_empty [OF assms(1,2) this] True show ?thesis by simp
next
  case False
  from get_fetched_page [OF assms(1-3) False assms(4)] collect_users_resolution [OF assms(5)]
  show ?thesis by simp
qed

lemma resolve_Some:
  "resolve E uids m k = Some u \<Longrightarrow>
     m k = Some u \<or> (\<exists>x\<in>set uids. carried_user E (lookup E x) = Some (k, u))"
proof (induction uids arbitrary: m)
  case Nil
  then show ?case by simp
next
  case (Cons x xs)
  from Cons.prems
  have "(case carried_user E (lookup E x) of None \<Rightarrow> m | Some (k', u') \<Rightarrow> m(k' \<mapsto> u')) k = Some u
        \<or> (\<exists>y\<in>set xs. carried_user E (lookup E y) = Some (k, u))"
    by (intro Cons.IH) simp
  then show ?case by (auto split: option.splits if_splits)
qed

lemma resolve_None:
  "resolve E uids m k = None \<Longrightarrow>
     m k = None \<and> (\<forall>x\<in>set uids. \<forall>u. carried_user E (lookup E x) \<noteq> Some (k, u))"
proof (induction uids arbitrary: m)
  case Nil
  then show ?case by simp
next
  case (Cons x xs)
  from Cons.prems
  have "(case carried_user E (lookup E x) of None \<Rightarrow> m | Some (k', u') \<Rightarrow> m(k' \<mapsto> u')) k = None
        \<and> (\<forall>y\<in>set xs. \<forall>u. carried_user E (lookup E y) \<noteq> Some (k, u))"
    by (intro Cons.IH) simp
  then show ?case by (auto split: option.splits if_splits)
qed

lemma resolution_Some:
  "resolution E uids k = Some u \<Longrightarrow> \<exists>x\<in>set uids. carried_user E (lookup E x) = Some (k, u)"
  using resolve_Some [of E uids Map.empty k u] by (simp add: resolution_def)

lemma resolution_None:
  "resolution E uids k = None \<Longrightarrow> x \<in> set uids \<Longrightarrow> carried_user E (lookup E x) \<noteq> Some (k, u)"
  using resolve_None [of E uids Map.empty k] by (simp add: resolution_def)

lemma carried_user_truthy: "carried_user E r = Some (k, u) \<Longrightarrow> py_truthy u"
  by (cases r) (auto split: sum.splits option.splits if_splits)

lemma enriched_user:
  "well_formed_listing l \<Longrightarrow> py_getitem (enriched M l) ''user'' = Inr (user_for M l)"
  by (erule well_formed_listingE) (simp add: with_user_map_of)

lemma failed_carried: "lookup_failed E x \<Longrightarrow> carried_user E (lookup E x) = None"
  by (cases "lookup E x") (simp_all add: lookup_failed_def)

lemma failed_passes: "lookup_failed E x \<Longrightarrow> passes_loop E (lookup E x)"
  by (cases "lookup E x") (simp_all add: lookup_failed_def)

lemma contract_passes:
  "honours_contract E x \<Longrightarrow> py_key x \<noteq> None \<Longrightarrow> passes_loop E (lookup E x)"
  by (cases "lookup E x")
     (auto simp: honours_contract_def split: sum.splits json.splits option.splits)

lemma contract_carried:
  assumes "honours_contract E x" and "py_key x = Some k" and "\<not> lookup_failed E x"
  shows "\<exists>u. carried_user E (lookup E x) = Some (k, u)"
  using assms
  by (cases "lookup E x")
     (auto simp: honours_contract_def lookup_failed_def split: sum.splits json.splits option.splits)

lemma contract_carried_key:
  assumes "honours_contract E x" and "carried_user E (lookup E x) = Some (k, u)"
  shows "py_key x = Some k"
  using assms
  by (cases "lookup E x")
     (auto simp: honours_contract_def split: sum.splits json.splits option.splits if_splits)

lemma users_map_get_JNull:
  assumes "\<And>u. M k = Some u \<Longrightarrow> py_truthy u"
  shows "users_map_get M k = JNull \<longleftrightarrow> M k = None"
  using assms by (cases "M k") (auto simp: users_map_get_def)

lemma looked_up_hashable:
  assumes "list_all well_formed_listing page" and "iterates_each_once E page"
      and "x \<in> set (looked_up E page)"
  shows "py_key x \<noteq> None"
proof -
  from looked_up_facts(1) [OF assms(2)] py_set_subset [of "map owner_of page"] assms(3)
  obtain l where "l \<in> set page" "x = owner_of l" by auto
  with assms(1) well_formed_key [of l] show ?thesis by (auto simp: list_all_iff)
qed

lemma collect_users_same_loads:
  "json_loads E' = json_loads E \<Longrightarrow> collect_users E' rs m = collect_users E rs m"
  by (induction E rs m rule: collect_users.induct)
     (simp_all split: sum.splits option.splits)

lemma lacks_user_skipped:
  assumes "lacks_user E x"
  shows "collect_users E (fetch E (user_request E x) # rs) m = collect_users E rs m"
  using assms
  by (cases "fetch E (user_request E x)")
     (auto simp: lacks_user_def lookup_def split: sum.splits json.splits option.splits)

lemma collect_users_Cons:
  "collect_users E (r # rs) m =
     (case collect_users E [r] m of Inl e \<Rightarrow> Inl e | Inr m' \<Rightarrow> collect_users E rs m')"
  by (cases r) (simp_all split: sum.splits option.splits)

lemma collect_users_failed_lookup:
  assumes "lacks_user E x"
  shows "collect_users E (map (fetch (with_failed_lookup E x e)) reqs) m =
           collect_users E (map (fetch E) reqs) m"
proof (induction reqs arbitrary: m)
  case Nil
  then show ?case by simp
next
  case (Cons r rs)
  show ?case
  proof (cases "r = user_request E x")
    case True
    with Cons.IH [of m] lacks_user_skipped [OF assms, of "map (fetch E) rs" m]
    show ?thesis by (simp add: with_failed_lookup_def)
  next
    case False
    then have same: "fetch (with_failed_lookup E x e) r = fetch E r"
      by (simp add: with_failed_lookup_def)
    have "collect_users E (fetch E r # map (fetch (with_failed_lookup E x e)) rs) m =
            collect_users E (fetch E r # map (fetch E) rs) m"
      by (subst collect_users_Cons, subst (2) collect_users_Cons)
         (simp add: Cons.IH split: sum.splits)
    with same show ?thesis by simp
  qed
qed

lemma fan_out_failed_lookup:
  assumes "lacks_user E x"
  shows "fan_out (with_failed_lookup E x e) listings = fan_out E listings"
proof -
  have loads: "json_loads (with_failed_lookup E x e) = json_loads E"
    by (simp add: with_failed_lookup_def)
  have req: "user_request (with_failed_lookup E x e) = user_request E"
    by (simp add: with_failed_lookup_def user_request_def fun_eq_iff)
  have ord: "set_order (with_failed_lookup E x e) = set_order E"
    by (simp add: with_failed_lookup_def)
  have "collect_users (with_failed_lookup E x e)
          (map (fetch (with_failed_lookup E x e)) (map (user_request E) uids)) Map.empty =
        collect_users E (map (fetch E) (map (user_request E) uids)) Map.empty" for uids
    by (simp only: collect_users_same_loads [OF loads] collect_users_failed_lookup [OF assms])
  then show ?thesis
    by (simp only: fan_out_def Let_def req ord)
qed

lemma get_except_failed_lookup:
  "get_except (with_failed_lookup E x e) e' = get_except E e'"
  by (cases e') (simp_all add: with_failed_lookup_def split: option.splits)

lemma get_failed_lookup:
  assumes "lacks_user E x"
  shows "PublicListingsHandler_get (with_failed_lookup E x e) page_num page_size user_id =
           PublicListingsHandler_get E page_num page_size user_id"
proof -
  have "fetch (with_failed_lookup E x e) (listings_request page_num page_size user_id) =
          fetch E (listings_request page_num page_size user_id)"
    by (simp add: with_failed_lookup_def listings_request_def user_request_def)
  moreover have "json_loads (with_failed_lookup E x e) = json_loads E"
    by (simp add: with_failed_lookup_def)
  ultimately have "get_try (with_failed_lookup E x e) (listings_request page_num page_size user_id) =
          get_try E (listings_request page_num page_size user_id)"
    by (simp only: get_try_def fan_out_failed_lookup [OF assms])
  then show ?thesis
    by (simp add: PublicListingsHandler_get_def Let_def get_except_failed_lookup
          cong: sum.case_cong)
qed

lemma lacks_user_carried: "lacks_user E x \<Longrightarrow> carried_user E (lookup E x) = None"
  by (cases "lookup E x")
     (auto simp: lacks_user_def split: sum.splits json.splits option.splits)

lemma users_post_object_without_name:
  assumes "json_loads E request_body = Inr (JObj kvs)"
      and "map_of kvs ''name'' = None \<or> (\<exists>v. map_of kvs ''name'' = Some v \<and> \<not> py_truthy v)"
  shows "PublicUsersHandler_post E request_body =
           ([], Reply 400 (error_envelope ''JSON body must contain a 'name' key.''))"
  using assms
  by (auto simp: PublicUsersHandler_post_def users_post_try_def write_error_400)

subsection \<open>The example page, evaluated\<close>

lemma demo_page_well_formed: "list_all well_formed_listing demo_page"
  by (simp add: demo_page_def demo_listing_def)

lemma demo_page_length: "length demo_page = 3" "demo_page \<noteq> []"
  by (simp_all add: demo_page_def)

lemma demo_looked_up: "looked_up page_env demo_page = [JNum 8, JNum 7]"
  by (simp add: looked_up_def page_env_def demo_env_def demo_page_def demo_listing_def
        owner_of_def py_set_def set_add_def)

lemma page_env_iterates: "iterates_each_once page_env demo_page"
  by (simp add: iterates_each_once_def page_env_def demo_env_def)

lemma page_env_fetch:
  "fetch page_env (listings_request None None None) = Returned \<lparr>code = 200, body = ''page''\<rparr>"
  by (simp add: page_env_def demo_env_def listings_request_def)

lemma page_env_loads:
  "json_loads page_env (body \<lparr>code = 200, body = ''page''\<rparr>) =
     Inr (JObj [(''result'', JBool True), (''listings'', JArr demo_page)])"
  by (simp add: page_env_def demo_env_def demo_loads_def)

lemma page_doc_listings:
  "py_get (JObj [(''result'', JBool True), (''listings'', JArr demo_page)]) ''listings'' (JArr []) =
     Inr (JArr demo_page)"
  by simp

lemma page_env_user_requests:
  "user_request page_env (JNum 8) = GET User ''/users/8'' []"
  "user_request page_env (JNum 7) = GET User ''/users/7'' []"
  by (simp_all add: user_request_def page_env_def demo_env_def demo_str_def)

lemma page_env_user_results:
  "fetch page_env (GET User ''/users/8'' []) = not_found"
  "fetch page_env (GET User ''/users/7'' []) = Returned \<lparr>code = 200, body = ''user7''\<rparr>"
  by (simp_all add: page_env_def demo_env_def)

lemma page_env_users_map:
  "collect_users page_env [not_found, Returned \<lparr>code = 200, body = ''user7''\<rparr>] Map.empty =
     Inr [HNum 7 \<mapsto> demo_user 7]"
  by (simp add: not_found_def page_env_def demo_env_def demo_loads_def demo_user_def)

lemma demo_page_enriched:
  "map (enriched [HNum 7 \<mapsto> demo_user 7]) demo_page =
     [JObj [(''id'', JNum 1), (''price'', JNum 100), (''user'', demo_user 7)],
      JObj [(''id'', JNum 2), (''price'', JNum 100), (''user'', JNull)],
      JObj [(''id'', JNum 3), (''price'', JNum 100), (''user'', demo_user 7)]]"
  by (simp add: demo_page_def demo_listing_def with_user_def user_for_def owner_of_def
        users_map_get_def)

lemma page_env_reply:
  "snd (PublicListingsHandler_get page_env None None None) =
     Reply 200 (JObj [(''result'', JBool True),
       (''listings'', JArr
          [JObj [(''id'', JNum 1), (''price'', JNum 100), (''user'', demo_user 7)],
           JObj [(''id'', JNum 2), (''price'', JNum 100), (''user'', JNull)],
           JObj [(''id'', JNum 3), (''price'', JNum 100), (''user'', demo_user 7)]])])"
  using get_fetched_page [OF page_env_fetch page_env_loads page_doc_listings demo_page_length(2)
          demo_page_well_formed]
  by (simp add: demo_looked_up page_env_user_requests page_env_user_results page_env_users_map
        demo_page_enriched)

lemma noname_env_loads: "json_loads noname_env ''noname'' = Inr (JObj [])"
  by (simp add: noname_env_def demo_env_def demo_loads_def)

lemma noname_env_fetch:
  "fetch noname_env (listings_request None None None) = Raised (OSError ''Connection refused'')"
  "fetch noname_env (POST s p b) = Raised (OSError ''Connection refused'')"
  by (simp_all add: noname_env_def demo_env_def refused_def listings_request_def)

lemma noname_env_ann:
  "json_loads noname_env ''ann'' = Inr (JObj [(''name'', JStr ''Ann'')])"
  "urlencode noname_env (JObj kvs) = Inr ''name=Ann''"
  by (simp_all add: noname_env_def demo_env_def demo_loads_def)

lemma demo_env_lookup:
  "lookup (demo_env l r p) (JNum 8) = r"
  "lookup (demo_env l r p) (JNum 7) = Returned \<lparr>code = 200, body = ''user7''\<rparr>"
  by (simp_all add: lookup_def user_request_def demo_env_def demo_str_def)

lemma demo_env_looked_up: "looked_up (demo_env l r p) demo_page = [JNum 8, JNum 7]"
  by (simp add: looked_up_def demo_env_def demo_page_def demo_listing_def
        owner_of_def py_set_def set_add_def)

lemma demo_env_carried_7:
  "carried_user (demo_env l r p) (Returned \<lparr>code = 200, body = ''user7''\<rparr>) =
     Some (HNum 7, demo_user 7)"
  by (simp add: demo_env_def demo_loads_def demo_user_def)

lemma demo_env_passes_7:
  "passes_loop (demo_env l r p) (Returned \<lparr>code = 200, body = ''user7''\<rparr>)"
  by (simp add: demo_env_def demo_loads_def demo_user_def)

lemma demo_env_nouser:
  "carried_user (demo_env l r p) (Returned \<lparr>code = 200, body = ''nouser''\<rparr>) = None"
  "passes_loop (demo_env l r p) (Returned \<lparr>code = 200, body = ''nouser''\<rparr>)"
  by (simp_all add: demo_env_def demo_loads_def)

lemma page_env_contract:
  "\<forall>x\<in>set (looked_up page_env demo_page). honours_contract page_env x"
  by (simp add: demo_looked_up)
     (simp add: honours_contract_def page_env_def demo_env_lookup not_found_def,
      simp add: demo_env_def demo_loads_def demo_user_def)

lemma page_env_failed:
  "lookup_failed page_env (JNum 8)" "\<not> lookup_failed page_env (JNum 7)"
  by (simp_all add: lookup_failed_def page_env_def demo_env_lookup not_found_def)

lemma page_env_resolution:
  "resolution page_env (looked_up page_env demo_page) = [HNum 7 \<mapsto> demo_user 7]"
  by (simp add: demo_looked_up)
     (simp add: resolution_def page_env_def demo_env_lookup demo_env_carried_7 not_found_def
        del: carried_user.simps(2))

lemma nouser_env_fetch:
  "fetch nouser_env (listings_request None None None) = Returned \<lparr>code = 200, body = ''page''\<rparr>"
  by (simp add: nouser_env_def demo_env_def listings_request_def)

lemma nouser_env_loads:
  "json_loads nouser_env (body \<lparr>code = 200, body = ''page''\<rparr>) =
     Inr (JObj [(''result'', JBool True), (''listings'', JArr demo_page)])"
  by (simp add: nouser_env_def demo_env_def demo_loads_def)

lemma nouser_env_looked_up: "looked_up nouser_env demo_page = [JNum 8, JNum 7]"
  by (simp add: nouser_env_def demo_env_looked_up)

lemma nouser_env_lacks: "lacks_user nouser_env (JNum 8)"
  by (simp add: lacks_user_def nouser_env_def demo_env_lookup)
     (simp add: demo_env_def demo_loads_def)

lemma nouser_env_passes:
  "\<forall>y\<in>set (looked_up nouser_env demo_page). passes_loop nouser_env (lookup nouser_env y)"
  by (simp add: nouser_env_looked_up)
     (simp add: nouser_env_def demo_env_lookup demo_env_passes_7 demo_env_nouser
        del: passes_loop.simps(2))

lemma nouser_env_carried:
  "carried_user nouser_env (lookup nouser_env (JNum 8)) = None"
  "carried_user nouser_env (lookup nouser_env (JNum 7)) = Some (HNum 7, demo_user 7)"
  by (simp_all add: nouser_env_def demo_env_lookup demo_env_carried_7 demo_env_nouser
        del: carried_user.simps(2))

lemma nouser_env_resolution:
  "resolution nouser_env (looked_up nouser_env demo_page) = [HNum 7 \<mapsto> demo_user 7]"
  by (simp add: nouser_env_looked_up) (simp add: resolution_def nouser_env_carried)

lemma unavailable_env_reply:
  "PublicListingsHandler_get unavailable_env None None None =
     ([GET Listing ''/listings'' [(''page_num'', ''1''), (''page_size'', ''10'')]],
      Reply 503 (error_envelope ''Upstream service error: b:down''))"
proof -
  have "fetch unavailable_env (listings_request None None None) =
          Raised (HTTPClientError 503 (Some \<lparr>code = 503, body = ''down''\<rparr>)
                    ''HTTP 503: Service Unavailable'')"
    by (simp add: unavailable_env_def demo_env_def listings_request_def)
  moreover have "\<not> no_body_status 503" by (simp add: no_body_status_def)
  ultimately show ?thesis
    using get_listings_upstream_status [of unavailable_env None None None 503, OF _ HTTPStatus_503]
    by (simp add: listings_request_def get_argument_def unavailable_env_def demo_env_def)
qed

lemma noname_env_reply:
  "PublicUsersHandler_post noname_env ''noname'' =
     ([], Reply 400 (error_envelope ''JSON body must contain a 'name' key.''))"
  using users_post_object_without_name [OF noname_env_loads] by simp

lemma noname_env_non_object:
  "json_loads noname_env ''array'' = Inr (JArr [])"
  "json_loads noname_env ''null'' = Inr JNull"
  by (simp_all add: noname_env_def demo_env_def demo_loads_def)

section \<open>Lemmas about the user backend\<close>

lemma newest_first_sorted: "newest_to_oldest (newest_first rs)"
proof -
  have "sorted (map (\<lambda>r. - created_at r) (sort_key (\<lambda>r. - created_at r) rs))"
    by (rule sorted_sort_key)
  then show ?thesis
    by (simp add: newest_to_oldest_def newest_first_def sorted_map)
qed

lemma newest_first_mset: "mset (newest_first rs) = mset rs"
  by (simp add: newest_first_def)

lemma newest_first_set: "set (newest_first rs) = set rs"
  by (simp add: newest_first_def)

lemma newest_to_oldest_page:
  "newest_to_oldest rs \<Longrightarrow> newest_to_oldest (take n (drop m rs))"
  by (simp add: newest_to_oldest_def)

lemma UsersHandler_get_page:
  assumes "int_argument to_int page_num_arg 1 = Some page_num"
      and "int_argument to_int page_size_arg 10 = Some page_size"
      and "int64 page_size"
      and "int64 ((page_num - 1) * page_size)"
  shows "UsersHandler_get to_int d page_num_arg page_size_arg =
           Reply 200
             (JObj [(''result'', JBool True),
                    (''users'',
                     JArr (map user_dict
                             (sql_limit page_size
                                (drop (nat ((page_num - 1) * page_size))
                                   (newest_first (rows d))))))])"
  using assms
  by (simp add: UsersHandler_get_def select_page_def write_json_def no_body_status_def leave_Inr
        Let_def)

lemma write_error_users_in: "users_in (leave (write_error c (Some msg))) = []"
  by (simp add: write_error_def leave_def write_json_def no_body_status_def split: option.splits)

lemma same_stamps_user_dict: "created_at r = updated_at r \<Longrightarrow> same_stamps (user_dict r)"
  by (simp add: same_stamps_def user_dict_def)

lemma sql_limit_subset: "set (sql_limit n xs) \<subseteq> set xs"
  by (auto simp: sql_limit_def dest: in_set_takeD)

lemma select_page_subset:
  assumes "select_page d limit offset = Inr rs"
  shows "set rs \<subseteq> set (rows d)"
proof -
  from assms have "rs = sql_limit limit (drop (nat offset) (newest_first (rows d)))"
    by (simp add: select_page_def split: if_splits)
  then have "set rs \<subseteq> set (drop (nat offset) (newest_first (rows d)))"
    using sql_limit_subset by simp
  also have "\<dots> \<subseteq> set (newest_first (rows d))" by (rule set_drop_subset)
  finally show ?thesis by (simp add: newest_first_set)
qed

lemma UsersHandler_get_users:
  assumes "stamps_agree d" and "u \<in> set (users_in (UsersHandler_get to_int d a b))"
  shows "same_stamps u"
proof -
  from assms(2) obtain pn ps rs where sel: "select_page d ps ((pn - 1) * ps) = Inr rs"
    and "u \<in> user_dict ` set rs"
    by (auto simp: UsersHandler_get_def write_error_users_in write_json_def
          no_body_status_def leave_Inr Let_def
             split: option.splits sum.splits)
  then obtain r where "r \<in> set rs" "u = user_dict r" by blast
  with select_page_subset [OF sel] assms(1) show ?thesis
    by (auto simp: stamps_agree_def intro!: same_stamps_user_dict)
qed

lemma UserHandler_get_users:
  assumes "stamps_agree d" and "u \<in> set (users_in (UserHandler_get to_int str_int d a))"
  shows "same_stamps u"
proof -
  from assms(2) obtain i r where "find (\<lambda>r. row_id r = i) (rows d) = Some r" and "u = user_dict r"
    by (auto simp: UserHandler_get_def write_error_users_in write_json_def
          no_body_status_def leave_Inr
             split: option.splits if_splits)
  then have "r \<in> set (rows d)" "u = user_dict r"
    by (auto simp: find_Some_iff)
  with assms(1) show ?thesis
    by (auto simp: stamps_agree_def intro!: same_stamps_user_dict)
qed

lemma insert_user_rows:
  "insert_user d nm c u = Inr (d', i) \<Longrightarrow>
     rows d' = rows d @ [\<lparr>row_id = seq d + 1, name = nm, created_at = c, updated_at = u\<rparr>]
     \<and> i = Some (seq d + 1)"
  by (auto simp: insert_user_def split: if_splits)

lemma UsersHandler_post_cases:
  "UsersHandler_post t d a = (d', rep) \<Longrightarrow>
     (d' = d \<and> users_in rep = [])
     \<or> (\<exists>nm. a = Some nm \<and> nm \<noteq> []
           \<and> rows d' = rows d @ [\<lparr>row_id = seq d + 1, name = nm, created_at = t, updated_at = t\<rparr>]
           \<and> rep = Reply 201
                (JObj [(''result'', JBool True),
                       (''user'',
                        JObj [(''id'', JNum (seq d + 1)), (''name'', JStr nm),
                              (''created_at'', JNum t), (''updated_at'', JNum t)])]))"
  by (auto simp: UsersHandler_post_def write_error_users_in write_json_def
        no_body_status_def leave_Inr
           split: option.splits if_splits sum.splits prod.splits dest!: insert_user_rows)

lemma UsersHandler_post_created:
  "UsersHandler_post t d a = (d', Reply 201 obj) \<Longrightarrow>
     \<exists>nm. obj = JObj [(''result'', JBool True),
                        (''user'',
                         JObj [(''id'', JNum (seq d + 1)), (''name'', JStr nm),
                               (''created_at'', JNum t), (''updated_at'', JNum t)])]
          \<and> rows d' = rows d @ [\<lparr>row_id = seq d + 1, name = nm, created_at = t, updated_at = t\<rparr>]"
  by (auto simp: UsersHandler_post_def write_error_400 write_error_500 leave_def write_json_def
        no_body_status_def
           split: option.splits if_splits sum.splits prod.splits dest!: insert_user_rows)

lemma UsersHandler_post_stamps:
  assumes "stamps_agree d"
  shows "stamps_agree (fst (UsersHandler_post t d a))"
    and "u \<in> set (users_in (snd (UsersHandler_post t d a))) \<Longrightarrow> same_stamps u"
proof -
  obtain d' rep where eq: "UsersHandler_post t d a = (d', rep)" by (cases "UsersHandler_post t d a")
  from UsersHandler_post_cases [OF eq] assms
  show "stamps_agree (fst (UsersHandler_post t d a))"
    using eq by (auto simp: stamps_agree_def)
  from UsersHandler_post_cases [OF eq]
  show "u \<in> set (users_in (snd (UsersHandler_post t d a))) \<Longrightarrow> same_stamps u"
    using eq by (auto simp: same_stamps_def)
qed

lemma serve_stamps:
  assumes "stamps_agree d"
  shows "stamps_agree (fst (serve to_int str_int d c))"
    and "u \<in> set (users_in (snd (serve to_int str_int d c))) \<Longrightarrow> same_stamps u"
  using assms UsersHandler_post_stamps [OF assms] UsersHandler_get_users [OF assms]
    UserHandler_get_users [OF assms]
  by (auto simp: serve_def split: user_call.splits)

lemma serve_keeps_rows:
  "take (length (rows d)) (rows (fst (serve to_int str_int d c))) = rows d"
proof (cases c)
  case (CreateUser a t)
  obtain d' rep where eq: "UsersHandler_post t d a = (d', rep)"
    by (cases "UsersHandler_post t d a")
  from UsersHandler_post_cases [OF eq] show ?thesis
    using CreateUser eq by (auto simp: serve_def)
qed (simp_all add: serve_def)

lemma serve_all_stamps:
  "stamps_agree d \<Longrightarrow> stamps_agree (serve_all to_int str_int d cs)"
  by (induction cs arbitrary: d) (simp_all add: serve_stamps(1))

lemma init_db_stamps: "stamps_agree init_db"
  by (simp add: stamps_agree_def init_db_def)

lemma demo_newest_first:
  "newest_first (rows demo_db) =
     [\<lparr>row_id = 2, name = ''Bob'', created_at = 9, updated_at = 9\<rparr>,
      \<lparr>row_id = 1, name = ''Ann'', created_at = 5, updated_at = 5\<rparr>]"
  by (simp add: newest_first_def demo_db_def)

lemma demo_run:
  "serve_all demo_int demo_str_int init_db [CreateUser (Some ''Ann'') 5, CreateUser (Some ''Bob'') 9]
     = demo_db"
  by (simp add: serve_def UsersHandler_post_def insert_user_def init_db_def int64_def demo_db_def)

lemma demo_get_user:
  "snd (serve demo_int demo_str_int demo_db (GetUser ''1'')) =
     Reply 200 (JObj [(''result'', JBool True),
                      (''user'',
                       JObj [(''id'', JNum 1), (''name'', JStr ''Ann''),
                             (''created_at'', JNum 5), (''updated_at'', JNum 5)])])"
  by (simp add: serve_def UserHandler_get_def demo_int_def int64_def demo_db_def write_json_def
        no_body_status_def leave_Inr
        user_dict_def)

section \<open>The claims\<close>

subsection \<open>C1: a failed user lookup leaves \<open>user: null\<close> and nothing else\<close>

text \<open>
  Claim C1. Let the listings fetch succeed with a page of listing records, and let the
  user backend honour its contract on the lookups that return. Then, whichever lookups
  fail, the response has status 200 and \<open>result: true\<close>, it holds every listing of the
  page in order (each with \<open>user_id\<close> replaced by \<open>user\<close>), and the \<open>user\<close> of a listing
  is \<open>null\<close> exactly when the lookup issued for its \<open>user_id\<close> failed. No failure of a
  lookup turns into an error response.
\<close>

theorem C1_failed_lookups_leave_null:
  assumes "fetch E (listings_request page_num page_size user_id) = Returned res"
      and "json_loads E (body res) = Inr data"
      and "py_get data ''listings'' (JArr []) = Inr (JArr page)"
      and "list_all well_formed_listing page"
      and "iterates_each_once E page"
      and "\<forall>x\<in>set (looked_up E page). honours_contract E x"
  shows "snd (PublicListingsHandler_get E page_num page_size user_id) =
           Reply 200
             (JObj [(''result'', JBool True),
                    (''listings'', JArr (map (enriched (resolution E (looked_up E page))) page))])
         \<and> (\<forall>l\<in>set page.
               py_getitem (enriched (resolution E (looked_up E page)) l) ''user'' = Inr JNull
               \<longleftrightarrow> (\<exists>x\<in>set (looked_up E page).
                      py_key x = py_key (owner_of l) \<and> lookup_failed E x))"
proof
  let ?uids = "looked_up E page"
  let ?M = "resolution E ?uids"
  note facts = looked_up_facts [OF assms(5)]
  have hashable: "py_key x \<noteq> None" if "x \<in> set ?uids" for x
    using looked_up_hashable [OF assms(4,5) that] .
  have passes: "\<forall>x\<in>set ?uids. passes_loop E (lookup E x)"
    using assms(6) hashable contract_passes by blast
  show "snd (PublicListingsHandler_get E page_num page_size user_id) =
          Reply 200 (JObj [(''result'', JBool True), (''listings'', JArr (map (enriched ?M) page))])"
    by (rule get_page_resolution [OF assms(1-4) passes])
  have keys: "py_key ` set ?uids = py_key ` owner_of ` set page"
    using facts(1) py_set_keys [of "map owner_of page"] by simp
  have inj: "x = y" if "x \<in> set ?uids" "y \<in> set ?uids" "py_key x = py_key y" for x y
    using facts(2) that by (auto simp: distinct_map dest: inj_onD)
  show "\<forall>l\<in>set page. py_getitem (enriched ?M l) ''user'' = Inr JNull
          \<longleftrightarrow> (\<exists>x\<in>set ?uids. py_key x = py_key (owner_of l) \<and> lookup_failed E x)"
  proof
    fix l assume l: "l \<in> set page"
    with assms(4) have wf: "well_formed_listing l" by (simp add: list_all_iff)
    from well_formed_key [OF wf] obtain k where k: "py_key (owner_of l) = Some k" ..
    from l keys k obtain x where x: "x \<in> set ?uids" "py_key x = Some k"
      by (metis (no_types, lifting) image_iff)
    have truthy: "py_truthy u" if "?M k = Some u" for u
      using resolution_Some [OF that] carried_user_truthy by blast
    have "py_getitem (enriched ?M l) ''user'' = Inr JNull \<longleftrightarrow> ?M k = None"
      using enriched_user [OF wf, of ?M] k users_map_get_JNull [of ?M k, OF truthy]
      by (simp add: user_for_def)
    also have "\<dots> \<longleftrightarrow> lookup_failed E x"
    proof
      assume none: "?M k = None"
      show "lookup_failed E x"
      proof (rule ccontr)
        assume "\<not> lookup_failed E x"
        with contract_carried [of E x k] assms(6) x
        obtain u where "carried_user E (lookup E x) = Some (k, u)" by blast
        with resolution_None [OF none x(1)] show False by blast
      qed
    next
      assume failed: "lookup_failed E x"
      show "?M k = None"
      proof (rule ccontr)
        assume "?M k \<noteq> None"
        then obtain u where "?M k = Some u" by blast
        from resolution_Some [OF this] obtain y
          where y: "y \<in> set ?uids" "carried_user E (lookup E y) = Some (k, u)" by blast
        with assms(6) contract_carried_key have "py_key y = Some k" by blast
        with inj [OF y(1) x(1)] x(2) have "y = x" by simp
        with y(2) failed_carried [OF failed] show False by simp
      qed
    qed
    also have "\<dots> \<longleftrightarrow> (\<exists>y\<in>set ?uids. py_key y = py_key (owner_of l) \<and> lookup_failed E y)"
      using x k inj by metis
    finally show "py_getitem (enriched ?M l) ''user'' = Inr JNull
          \<longleftrightarrow> (\<exists>x\<in>set ?uids. py_key x = py_key (owner_of l) \<and> lookup_failed E x)" .
  qed
qed

theorem C1_witness:
  "snd (PublicListingsHandler_get page_env None None None) =
     Reply 200 (JObj [(''result'', JBool True),
       (''listings'', JArr
          [JObj [(''id'', JNum 1), (''price'', JNum 100), (''user'', demo_user 7)],
           JObj [(''id'', JNum 2), (''price'', JNum 100), (''user'', JNull)],
           JObj [(''id'', JNum 3), (''price'', JNum 100), (''user'', demo_user 7)]])])
   \<and> lookup_failed page_env (JNum 8)
   \<and> \<not> lookup_failed page_env (JNum 7)"
  using C1_failed_lookups_leave_null
          [OF page_env_fetch page_env_loads page_doc_listings demo_page_well_formed
              page_env_iterates page_env_contract]
  by (simp add: page_env_resolution demo_page_enriched page_env_failed)

subsection \<open>C2: one lookup per distinct user id\<close>

text \<open>
  Claim C2. When the listing backend returns a page of listing records, the requests
  the handler issues are the listings request followed by one user lookup for each
  element of the set of the page's \<open>user_id\<close> values: every id looked up occurs in the
  page, every id of the page is looked up (ids compared as Python compares set
  elements), no id is looked up twice, and the number of lookups is the number of
  distinct ids, however many listings share one. Where no two different id values of the
  page are equal for Python, the ids looked up are exactly the ids of the page.
\<close>

theorem C2_one_lookup_per_distinct_user_id:
  assumes "fetch E (listings_request page_num page_size user_id) = Returned res"
      and "json_loads E (body res) = Inr data"
      and "py_get data ''listings'' (JArr []) = Inr (JArr page)"
      and "list_all well_formed_listing page"
      and "iterates_each_once E page"
  shows "fst (PublicListingsHandler_get E page_num page_size user_id) =
           listings_request page_num page_size user_id # map (user_request E) (looked_up E page)
         \<and> set (looked_up E page) \<subseteq> owner_of ` set page
         \<and> py_key ` set (looked_up E page) = py_key ` owner_of ` set page
         \<and> distinct (map py_key (looked_up E page))
         \<and> length (looked_up E page) = card (py_key ` owner_of ` set page)
         \<and> (inj_on py_key (owner_of ` set page) \<longrightarrow> set (looked_up E page) = owner_of ` set page)"
proof -
  note facts = looked_up_facts [OF assms(5)]
  have calls: "fst (PublicListingsHandler_get E page_num page_size user_id) =
           listings_request page_num page_size user_id # map (user_request E) (looked_up E page)"
  proof (cases "page = []")
    case True
    with assms(5) have "looked_up E page = []"
      by (simp add: iterates_each_once_def looked_up_def py_set_def)
    moreover from True assms(3) have "py_get data ''listings'' (JArr []) = Inr (JArr [])" by simp
    ultimately show ?thesis
      using get_fetched_empty [OF assms(1,2), of "JArr []"] by simp
  next
    case False
    then show ?thesis using get_fetched_page [OF assms(1-3) _ assms(4)] by simp
  qed
  have sub: "set (looked_up E page) \<subseteq> owner_of ` set page"
    using facts(1) py_set_subset [of "map owner_of page"] by simp
  have keys: "py_key ` set (looked_up E page) = py_key ` owner_of ` set page"
    using facts(1) py_set_keys [of "map owner_of page"] by simp
  have len: "length (looked_up E page) = card (py_key ` owner_of ` set page)"
    using distinct_card [OF facts(2)] keys by simp
  have inj: "set (looked_up E page) = owner_of ` set page" if "inj_on py_key (owner_of ` set page)"
  proof
    show "set (looked_up E page) \<subseteq> owner_of ` set page" by (rule sub)
    show "owner_of ` set page \<subseteq> set (looked_up E page)"
    proof
      fix x assume x: "x \<in> owner_of ` set page"
      then have "py_key x \<in> py_key ` set (looked_up E page)" using keys by blast
      then obtain y where y: "y \<in> set (looked_up E page)" "py_key y = py_key x" by auto
      with sub have "y \<in> owner_of ` set page" by blast
      with that x y(2) have "y = x" by (auto dest: inj_onD)
      with y(1) show "x \<in> set (looked_up E page)" by simp
    qed
  qed
  from calls sub keys facts(2) len inj show ?thesis by blast
qed

theorem C2_witness:
  "fst (PublicListingsHandler_get page_env None None None) =
     [GET Listing ''/listings'' [(''page_num'', ''1''), (''page_size'', ''10'')],
      GET User ''/users/8'' [], GET User ''/users/7'' []]
   \<and> length demo_page = 3
   \<and> length (looked_up page_env demo_page) = 2"
proof -
  have "fst (PublicListingsHandler_get page_env None None None) =
          listings_request None None None # map (user_request page_env) [JNum 8, JNum 7]"
    using C2_one_lookup_per_distinct_user_id
            [OF page_env_fetch page_env_loads page_doc_listings demo_page_well_formed
                page_env_iterates]
    by (simp add: demo_looked_up)
  then show ?thesis
    by (simp add: page_env_user_requests demo_looked_up demo_page_length listings_request_def
          get_argument_def)
qed

subsection \<open>C3: the page keeps its length, its order and its other fields\<close>

text \<open>
  Claim C3. When the request succeeds (the response carries \<open>result: true\<close>) on a page
  \<open>page\<close> returned by the listing backend, the listings of the response are as many as
  the page's, and the one at each position is the page's record at that position with
  \<open>user_id\<close> removed and \<open>user\<close> present; its other fields are the record's, in their
  order. The statement holds for every environment, so for every behaviour of the user
  lookups and every order in which they are started; the results are visited in the
  order of the requests, whatever the order in which they completed.
\<close>

theorem C3_same_length_order_and_fields:
  assumes "fetch E (listings_request page_num page_size user_id) = Returned res"
      and "json_loads E (body res) = Inr data"
      and "py_get data ''listings'' (JArr []) = Inr (JArr page)"
      and "snd (PublicListingsHandler_get E page_num page_size user_id) =
             Reply status (JObj [(''result'', JBool True), (''listings'', JArr out)])"
  shows "length out = length page
         \<and> (\<forall>i<length page. \<exists>kvs kvs'.
               page ! i = JObj kvs \<and> out ! i = JObj kvs'
               \<and> filter other_field kvs' = filter other_field kvs
               \<and> ''user_id'' \<notin> fst ` set kvs'
               \<and> ''user'' \<in> fst ` set kvs')"
proof (cases "page = []")
  case True
  with assms(3) have "py_get data ''listings'' (JArr []) = Inr (JArr [])" by simp
  from get_fetched_empty [OF assms(1,2) this] assms(4) True show ?thesis by simp
next
  case False
  have run: "snd (PublicListingsHandler_get E page_num page_size user_id) =
               (case snd (fan_out E (JArr page)) of Inl e \<Rightarrow> get_except E e | Inr rep \<Rightarrow> rep)"
    using get_try_fetched [OF assms(1-3) False]
    by (simp add: PublicListingsHandler_get_def)
  have "snd (fan_out E (JArr page)) =
          Inr (Reply status (JObj [(''result'', JBool True), (''listings'', JArr out)]))"
  proof (cases "snd (fan_out E (JArr page))")
    case (Inl e)
    with run assms(4) get_except_not_success [of E e status "[(''listings'', JArr out)]"]
    show ?thesis by simp
  next
    case (Inr rep)
    with run assms(4) show ?thesis by simp
  qed
  then obtain M where "attach_users M page = Inr out"
    by (auto simp: fan_out_def write_json_def no_body_status_def Let_def split: sum.splits)
  from attach_users_shape [OF this]
  have len: "length out = length page"
    and shape: "\<forall>i<length page. \<exists>kvs u. page ! i = JObj kvs \<and> out ! i = JObj (with_user kvs u)"
    by simp_all
  show ?thesis
  proof (intro conjI allI impI)
    show "length out = length page" by (rule len)
  next
    fix i assume "i < length page"
    with shape obtain kvs u where "page ! i = JObj kvs" "out ! i = JObj (with_user kvs u)"
      by blast
    moreover have "''user'' \<in> fst ` set (with_user kvs u)"
      using with_user_map_of [of kvs u] by (metis domI dom_map_of_conv_image_fst)
    ultimately show "\<exists>kvs kvs'. page ! i = JObj kvs \<and> out ! i = JObj kvs'
               \<and> filter other_field kvs' = filter other_field kvs
               \<and> ''user_id'' \<notin> fst ` set kvs'
               \<and> ''user'' \<in> fst ` set kvs'"
      using with_user_other_fields [of kvs u] with_user_no_user_id [of kvs u] by blast
  qed
qed

theorem C3_witness:
  "length [JObj [(''id'', JNum 1), (''price'', JNum 100), (''user'', demo_user 7)],
           JObj [(''id'', JNum 2), (''price'', JNum 100), (''user'', JNull)],
           JObj [(''id'', JNum 3), (''price'', JNum 100), (''user'', demo_user 7)]]
     = length demo_page"
  using C3_same_length_order_and_fields
          [OF page_env_fetch page_env_loads page_doc_listings page_env_reply]
  by (simp add: demo_page_length)

subsection \<open>C4: an empty page\<close>

text \<open>
  Claim C4. When the listings fetch returns an empty \<open>listings\<close> array, the only request
  issued is the listings request (no user lookup), and the response is
  \<open>{result: true, listings: []}\<close> with status 200.
\<close>

theorem C4_empty_page_no_fan_out:
  assumes "fetch E (listings_request page_num page_size user_id) = Returned res"
      and "json_loads E (body res) = Inr data"
      and "py_get data ''listings'' (JArr []) = Inr (JArr [])"
  shows "PublicListingsHandler_get E page_num page_size user_id =
           ([listings_request page_num page_size user_id],
            Reply 200 (JObj [(''result'', JBool True), (''listings'', JArr [])]))"
  using get_fetched_empty [OF assms] by simp

theorem C4_witness:
  "PublicListingsHandler_get empty_env None None None =
     ([GET Listing ''/listings'' [(''page_num'', ''1''), (''page_size'', ''10'')]],
      Reply 200 (JObj [(''result'', JBool True), (''listings'', JArr [])]))"
  using C4_empty_page_no_fan_out
          [of empty_env None None None "\<lparr>code = 200, body = ''empty''\<rparr>"
              "JObj [(''result'', JBool True), (''listings'', JArr [])]"]
  by (simp add: empty_env_def demo_env_def demo_loads_def listings_request_def get_argument_def)

subsection \<open>C5: an upstream status on the listings fetch\<close>

text \<open>
  Claim C5 says that an upstream non-2xx status \<open>S\<close> of the listings fetch comes back as
  the status of an error envelope whose message wraps the upstream body, with no user
  lookup. For a status that is a member of \<open>HTTPStatus\<close> the handler does so (lemma
  \<open>get_listings_upstream_status\<close>; 503 in \<open>unavailable_env_reply\<close>). The handler passes
  \<open>S\<close> to \<open>write_error\<close>, which looks \<open>S\<close> up in \<open>HTTPStatus\<close> before it reads the
  reason it was given: for a status that is no member (520 here; 599, the code the HTTP
  client gives its own timeouts, is another) the lookup raises \<open>ValueError\<close> inside the
  \<open>except\<close> clause, and the exception leaves the handler instead of the envelope.
\<close>

theorem C5_unknown_status_escapes:
  "PublicListingsHandler_get unknown_status_env None None None =
     ([GET Listing ''/listings'' [(''page_num'', ''1''), (''page_size'', ''10'')]],
      Unhandled ValueError)"
  by (simp add: PublicListingsHandler_get_def get_try_def unknown_status_env_def demo_env_def
        listings_request_def get_argument_def write_error_no_member [OF HTTPStatus_520] leave_def)

subsection \<open>C6: a transport fault on a primary call\<close>

text \<open>
  Claim C6, as amended. When the primary call of a handler (the listings fetch, or the
  POST of either create handler) raises a transport fault that is no HTTP error, the
  handler answers with status 500 and the fixed message
  \<open>An internal server error occurred.\<close>, which does not depend on the cause. No handler
  maps a fault to 502 or names the upstream as unreachable.
\<close>

theorem C6_transport_fault_is_internal_error:
  "(fetch E (listings_request a b c) = Raised (OSError cause) \<longrightarrow>
      PublicListingsHandler_get E a b c = ([listings_request a b c], internal_error))
   \<and> (json_loads E request_body = Inr parsed \<and> urlencode E parsed = Inr post_data
        \<and> fetch E (POST Listing ''/listings'' post_data) = Raised (OSError cause) \<longrightarrow>
      PublicListingsHandler_post E request_body =
        ([POST Listing ''/listings'' post_data], internal_error))
   \<and> (json_loads E request_body = Inr parsed \<and> py_get parsed ''name'' JNull = Inr nm
        \<and> py_truthy nm \<and> urlencode E (JObj [(''name'', nm)]) = Inr post_data
        \<and> fetch E (POST User ''/users'' post_data) = Raised (OSError cause) \<longrightarrow>
      PublicUsersHandler_post E request_body =
        ([POST User ''/users'' post_data], internal_error))"
  by (simp add: get_listings_fetch_raised PublicListingsHandler_post_def listings_post_try_def
        PublicUsersHandler_post_def users_post_try_def forward_post_def write_error_500
        leave_def internal_error_def)

theorem C6_witness:
  "PublicListingsHandler_get noname_env None None None =
     ([listings_request None None None], internal_error)
   \<and> PublicListingsHandler_post noname_env ''ann'' =
       ([POST Listing ''/listings'' ''name=Ann''], internal_error)
   \<and> PublicUsersHandler_post noname_env ''ann'' =
       ([POST User ''/users'' ''name=Ann''], internal_error)"
  using C6_transport_fault_is_internal_error
          [of noname_env None None None "''Connection refused''" "''ann''"
              "JObj [(''name'', JStr ''Ann'')]" "''name=Ann''" "JStr ''Ann''"]
  by (simp add: noname_env_fetch noname_env_ann)

text \<open>
  The claim as stated fails: a refused connection on the listings fetch is answered
  with status 500 and the internal-error message, not with 502.
\<close>

theorem C6_counterexample:
  "fetch noname_env (listings_request None None None) = Raised (OSError ''Connection refused'')
   \<and> snd (PublicListingsHandler_get noname_env None None None) =
       Reply 500 (error_envelope ''An internal server error occurred.'')
   \<and> reply_status (snd (PublicListingsHandler_get noname_env None None None)) \<noteq> Some 502"
  by (simp add: noname_env_fetch get_listings_fetch_raised write_error_500 leave_def
        reply_status_def)

subsection \<open>C7: creating a user without a name\<close>

text \<open>
  Claim C7 says that a \<open>POST /public-api/users\<close> whose JSON body lacks a \<open>name\<close> key,
  or whose \<open>name\<close> is empty, is answered with status 400 and a message about the field,
  without a request to the user backend. For a body that is a JSON object the handler
  does so (lemma \<open>users_post_object_without_name\<close>). A body that is valid JSON but no
  object (\<open>[]\<close>, \<open>null\<close>, a number, a string) has no \<open>name\<close> key either; there
  \<open>body.get("name")\<close> raises \<open>AttributeError\<close>, the last \<open>except\<close> clause catches it, and
  the answer is status 500 with the internal-error message. No request is issued.
\<close>

theorem C7_non_object_body_is_500:
  "json_loads noname_env ''array'' = Inr (JArr [])
   \<and> PublicUsersHandler_post noname_env ''array'' =
       ([], Reply 500 (error_envelope ''An internal server error occurred.''))
   \<and> json_loads noname_env ''null'' = Inr JNull
   \<and> PublicUsersHandler_post noname_env ''null'' =
       ([], Reply 500 (error_envelope ''An internal server error occurred.''))"
  by (simp add: noname_env_non_object PublicUsersHandler_post_def users_post_try_def
        write_error_500 leave_def)

subsection \<open>C8: a page of users\<close>

text \<open>
  Claim C8, as amended. For a request whose \<open>page_size\<close> is not negative, with
  \<open>page_size\<close> and \<open>(page_num - 1) * page_size\<close> in SQLite's range of 64-bit integers, the
  response is \<open>{result: true, users: [...]}\<close> with status 200; the users are those of
  the table ordered by \<open>created_at\<close> descending, without the first
  \<open>(page_num - 1) * page_size\<close> of them (none is left out when that number is negative),
  cut after \<open>page_size\<close> records; they are in that order and at most \<open>page_size\<close>.
\<close>

theorem C8_page_of_users:
  assumes "int_argument to_int page_num_arg 1 = Some page_num"
      and "int_argument to_int page_size_arg 10 = Some page_size"
      and "0 \<le> page_size"
      and "int64 page_size"
      and "int64 ((page_num - 1) * page_size)"
  shows "UsersHandler_get to_int d page_num_arg page_size_arg =
           Reply 200
             (JObj [(''result'', JBool True),
                    (''users'',
                     JArr (map user_dict
                             (take (nat page_size)
                                (drop (nat ((page_num - 1) * page_size))
                                   (newest_first (rows d))))))])
         \<and> newest_to_oldest (newest_first (rows d))
         \<and> mset (newest_first (rows d)) = mset (rows d)
         \<and> newest_to_oldest
             (take (nat page_size)
                (drop (nat ((page_num - 1) * page_size)) (newest_first (rows d))))
         \<and> int (length (take (nat page_size)
                          (drop (nat ((page_num - 1) * page_size)) (newest_first (rows d)))))
             \<le> page_size"
proof (intro conjI)
  show "UsersHandler_get to_int d page_num_arg page_size_arg =
           Reply 200
             (JObj [(''result'', JBool True),
                    (''users'',
                     JArr (map user_dict
                             (take (nat page_size)
                                (drop (nat ((page_num - 1) * page_size))
                                   (newest_first (rows d))))))])"
    using UsersHandler_get_page [OF assms(1,2,4,5)] assms(3) by (simp add: sql_limit_def)
  show "newest_to_oldest (newest_first (rows d))" by (rule newest_first_sorted)
  show "mset (newest_first (rows d)) = mset (rows d)" by (rule newest_first_mset)
  show "newest_to_oldest
          (take (nat page_size) (drop (nat ((page_num - 1) * page_size)) (newest_first (rows d))))"
    by (rule newest_to_oldest_page [OF newest_first_sorted])
  show "int (length (take (nat page_size)
                       (drop (nat ((page_num - 1) * page_size)) (newest_first (rows d)))))
          \<le> page_size"
    using assms(3) by simp
qed

theorem C8_witness:
  "UsersHandler_get demo_int demo_db (Some ''2'') (Some ''1'') =
     Reply 200
       (JObj [(''result'', JBool True),
              (''users'',
               JArr [user_dict \<lparr>row_id = 1, name = ''Ann'', created_at = 5, updated_at = 5\<rparr>])])"
proof -
  have "int_argument demo_int (Some ''2'') 1 = Some 2"
    and "int_argument demo_int (Some ''1'') 10 = Some 1"
    by (simp_all add: int_argument_def demo_int_def)
  from C8_page_of_users [OF this, of demo_db] show ?thesis
    by (simp add: int64_def demo_newest_first)
qed

text \<open>
  The claim as stated fails on requests the handler accepts: with \<open>page_size = -1\<close> the
  query has no limit and both stored users come back, more than \<open>page_size\<close>; with
  \<open>page_size = 2^63\<close> binding the limit raises \<open>OverflowError\<close> and no users array is
  returned.
\<close>

theorem C8_counterexample:
  "UsersHandler_get demo_int demo_db (Some ''1'') (Some ''-1'') =
     Reply 200
       (JObj [(''result'', JBool True),
              (''users'',
               JArr [user_dict \<lparr>row_id = 2, name = ''Bob'', created_at = 9, updated_at = 9\<rparr>,
                     user_dict \<lparr>row_id = 1, name = ''Ann'', created_at = 5, updated_at = 5\<rparr>])])
   \<and> \<not> int (length [user_dict \<lparr>row_id = 2, name = ''Bob'', created_at = 9, updated_at = 9\<rparr>,
                       user_dict \<lparr>row_id = 1, name = ''Ann'', created_at = 5, updated_at = 5\<rparr>])
         \<le> - 1
   \<and> UsersHandler_get demo_int demo_db (Some ''1'') (Some ''9223372036854775808'') =
       Unhandled OverflowError"
proof (intro conjI)
  have "int_argument demo_int (Some ''1'') 1 = Some 1"
    and "int_argument demo_int (Some ''-1'') 10 = Some (- 1)"
    by (simp_all add: int_argument_def demo_int_def)
  from UsersHandler_get_page [OF this, of demo_db]
  show "UsersHandler_get demo_int demo_db (Some ''1'') (Some ''-1'') =
     Reply 200
       (JObj [(''result'', JBool True),
              (''users'',
               JArr [user_dict \<lparr>row_id = 2, name = ''Bob'', created_at = 9, updated_at = 9\<rparr>,
                     user_dict \<lparr>row_id = 1, name = ''Ann'', created_at = 5, updated_at = 5\<rparr>])])"
    by (simp add: int64_def sql_limit_def demo_newest_first)
  show "\<not> int (length [user_dict \<lparr>row_id = 2, name = ''Bob'', created_at = 9, updated_at = 9\<rparr>,
                       user_dict \<lparr>row_id = 1, name = ''Ann'', created_at = 5, updated_at = 5\<rparr>])
         \<le> - 1"
    by simp
  show "UsersHandler_get demo_int demo_db (Some ''1'') (Some ''9223372036854775808'') =
       Unhandled OverflowError"
    by (simp add: UsersHandler_get_def int_argument_def demo_int_def select_page_def int64_def)
qed

subsection \<open>C9: \<open>created_at\<close> equals \<open>updated_at\<close>\<close>

text \<open>
  Claim C9. After any sequence of requests served from a fresh database, every row has
  \<open>created_at = updated_at\<close>; every user record in the response to any further request
  (\<open>GET /users\<close>, \<open>GET /users/{id}\<close> or \<open>POST /users\<close>) has the two fields equal; no
  request changes a row that is already stored; and a \<open>POST /users\<close> answered with 201
  has appended one row whose two stamps are the one reading of the clock taken by that
  request, the record returned carrying the same.
\<close>

theorem C9_created_at_equals_updated_at:
  "(\<forall>r\<in>set (rows (serve_all to_int str_int init_db cs)). created_at r = updated_at r)
   \<and> (\<forall>c. \<forall>u\<in>set (users_in (snd (serve to_int str_int (serve_all to_int str_int init_db cs) c))).
          same_stamps u)
   \<and> (\<forall>c. take (length (rows (serve_all to_int str_int init_db cs)))
               (rows (fst (serve to_int str_int (serve_all to_int str_int init_db cs) c))) =
             rows (serve_all to_int str_int init_db cs))
   \<and> (\<forall>t a d' obj.
          UsersHandler_post t (serve_all to_int str_int init_db cs) a = (d', Reply 201 obj) \<longrightarrow>
          (\<exists>i nm. obj = JObj [(''result'', JBool True),
                              (''user'',
                               JObj [(''id'', JNum i), (''name'', JStr nm),
                                     (''created_at'', JNum t), (''updated_at'', JNum t)])]
                  \<and> rows d' = rows (serve_all to_int str_int init_db cs)
                                @ [\<lparr>row_id = i, name = nm, created_at = t, updated_at = t\<rparr>]))"
proof (intro conjI allI impI ballI)
  let ?d = "serve_all to_int str_int init_db cs"
  have inv: "stamps_agree ?d" by (rule serve_all_stamps [OF init_db_stamps])
  show "created_at r = updated_at r" if "r \<in> set (rows ?d)" for r
    using inv that by (simp add: stamps_agree_def)
  show "same_stamps u" if "u \<in> set (users_in (snd (serve to_int str_int ?d c)))" for c u
    using serve_stamps(2) [OF inv that] .
  show "take (length (rows ?d)) (rows (fst (serve to_int str_int ?d c))) = rows ?d" for c
    by (rule serve_keeps_rows)
  show "\<exists>i nm. obj = JObj [(''result'', JBool True),
                              (''user'',
                               JObj [(''id'', JNum i), (''name'', JStr nm),
                                     (''created_at'', JNum t), (''updated_at'', JNum t)])]
                  \<and> rows d' = rows ?d @ [\<lparr>row_id = i, name = nm, created_at = t, updated_at = t\<rparr>]"
    if "UsersHandler_post t ?d a = (d', Reply 201 obj)" for t a d' obj
    using UsersHandler_post_created [OF that] by blast
qed

theorem C9_witness:
  "serve_all demo_int demo_str_int init_db [CreateUser (Some ''Ann'') 5, CreateUser (Some ''Bob'') 9]
     = demo_db
   \<and> map created_at (rows demo_db) = map updated_at (rows demo_db)
   \<and> snd (serve demo_int demo_str_int demo_db (GetUser ''1'')) =
       Reply 200 (JObj [(''result'', JBool True),
                        (''user'',
                         JObj [(''id'', JNum 1), (''name'', JStr ''Ann''),
                               (''created_at'', JNum 5), (''updated_at'', JNum 5)])])
   \<and> same_stamps (JObj [(''id'', JNum 1), (''name'', JStr ''Ann''),
                        (''created_at'', JNum 5), (''updated_at'', JNum 5)])"
proof -
  note run = C9_created_at_equals_updated_at
          [of demo_int demo_str_int "[CreateUser (Some ''Ann'') 5, CreateUser (Some ''Bob'') 9]",
           unfolded demo_run]
  from run have "\<forall>r\<in>set (rows demo_db). created_at r = updated_at r" by blast
  then have "map created_at (rows demo_db) = map updated_at (rows demo_db)" by simp
  moreover from run
  have "\<forall>u\<in>set (users_in (snd (serve demo_int demo_str_int demo_db (GetUser ''1'')))). same_stamps u"
    by blast
  then have "same_stamps (JObj [(''id'', JNum 1), (''name'', JStr ''Ann''),
                        (''created_at'', JNum 5), (''updated_at'', JNum 5)])"
    by (simp add: demo_get_user)
  ultimately show ?thesis
    using demo_run demo_get_user by blast
qed

subsection \<open>C10: a 2xx response without a user\<close>

text \<open>
  Claim C10. Let the lookup of an id \<open>x\<close> of the page return a 2xx response whose parsed
  body is an object without a truthy \<open>user\<close>. Then the handler behaves exactly as if
  that lookup had raised (same requests, same response), and the response adds nothing
  to the resolution map. When no result makes the loop raise, the request succeeds with
  the listings enriched from the resolution map; that map has an entry under every id
  carried by a response body, whatever id was asked for; and when no body carries the
  id \<open>x\<close>, every listing owned by \<open>x\<close> gets \<open>user: null\<close>.
\<close>

theorem C10_response_without_user:
  assumes "fetch E (listings_request page_num page_size user_id) = Returned res"
      and "json_loads E (body res) = Inr data"
      and "py_get data ''listings'' (JArr []) = Inr (JArr page)"
      and "list_all well_formed_listing page"
      and "x \<in> set (looked_up E page)"
      and "lacks_user E x"
  shows "PublicListingsHandler_get (with_failed_lookup E x e) page_num page_size user_id =
           PublicListingsHandler_get E page_num page_size user_id
         \<and> carried_user E (lookup E x) = None
         \<and> ((\<forall>y\<in>set (looked_up E page). passes_loop E (lookup E y)) \<longrightarrow>
              snd (PublicListingsHandler_get E page_num page_size user_id) =
                Reply 200
                  (JObj [(''result'', JBool True),
                         (''listings'',
                          JArr (map (enriched (resolution E (looked_up E page))) page))])
              \<and> (\<forall>y\<in>set (looked_up E page). \<forall>k u.
                    carried_user E (lookup E y) = Some (k, u) \<longrightarrow>
                    resolution E (looked_up E page) k \<noteq> None)
              \<and> ((\<forall>y\<in>set (looked_up E page). \<forall>k u.
                     carried_user E (lookup E y) = Some (k, u) \<longrightarrow> py_key x \<noteq> Some k) \<longrightarrow>
                   (\<forall>l\<in>set page. py_key (owner_of l) = py_key x \<longrightarrow>
                      py_getitem (enriched (resolution E (looked_up E page)) l) ''user'' = Inr JNull)))"
proof (intro conjI impI)
  let ?uids = "looked_up E page"
  let ?M = "resolution E ?uids"
  show "PublicListingsHandler_get (with_failed_lookup E x e) page_num page_size user_id =
          PublicListingsHandler_get E page_num page_size user_id"
    by (rule get_failed_lookup [OF assms(6)])
  show "carried_user E (lookup E x) = None"
    by (rule lacks_user_carried [OF assms(6)])
  show "snd (PublicListingsHandler_get E page_num page_size user_id) =
          Reply 200 (JObj [(''result'', JBool True), (''listings'', JArr (map (enriched ?M) page))])"
    if "\<forall>y\<in>set ?uids. passes_loop E (lookup E y)"
    by (rule get_page_resolution [OF assms(1-4) that])
  show "\<forall>y\<in>set ?uids. \<forall>k u. carried_user E (lookup E y) = Some (k, u) \<longrightarrow> ?M k \<noteq> None"
    using resolution_None by blast
  show "\<forall>l\<in>set page. py_key (owner_of l) = py_key x \<longrightarrow>
          py_getitem (enriched ?M l) ''user'' = Inr JNull"
    if other: "\<forall>y\<in>set ?uids. \<forall>k u. carried_user E (lookup E y) = Some (k, u) \<longrightarrow> py_key x \<noteq> Some k"
  proof (intro ballI impI)
    fix l assume l: "l \<in> set page" and same: "py_key (owner_of l) = py_key x"
    with assms(4) have wf: "well_formed_listing l" by (simp add: list_all_iff)
    from well_formed_key [OF wf] obtain k where k: "py_key (owner_of l) = Some k" ..
    have "?M k = None"
    proof (rule ccontr)
      assume "?M k \<noteq> None"
      then obtain u where "?M k = Some u" by blast
      from resolution_Some [OF this] other same k show False by force
    qed
    with enriched_user [OF wf, of ?M] k show "py_getitem (enriched ?M l) ''user'' = Inr JNull"
      by (simp add: user_for_def users_map_get_def)
  qed
qed

theorem C10_witness:
  "PublicListingsHandler_get (with_failed_lookup nouser_env (JNum 8) (OSError ''timed out''))
       None None None =
     PublicListingsHandler_get nouser_env None None None
   \<and> lacks_user nouser_env (JNum 8)
   \<and> snd (PublicListingsHandler_get nouser_env None None None) =
       Reply 200 (JObj [(''result'', JBool True),
         (''listings'', JArr
            [JObj [(''id'', JNum 1), (''price'', JNum 100), (''user'', demo_user 7)],
             JObj [(''id'', JNum 2), (''price'', JNum 100), (''user'', JNull)],
             JObj [(''id'', JNum 3), (''price'', JNum 100), (''user'', demo_user 7)]])])"
proof -
  have x: "JNum 8 \<in> set (looked_up nouser_env demo_page)"
    by (simp add: nouser_env_looked_up)
  from C10_response_without_user
         [OF nouser_env_fetch nouser_env_loads page_doc_listings demo_page_well_formed x
             nouser_env_lacks, of "OSError ''timed out''"]
       nouser_env_passes
  show ?thesis
    by (simp add: nouser_env_resolution demo_page_enriched nouser_env_lacks)
qed

end
